theory Spec2Isabelle
  imports Complex_Main
begin

section \<open>JavaScript values used by the application\<close>

text \<open>
  The application is a React program (\<^verbatim>\<open>src/App.js\<close>). The file holds two builds of
  the same application: a plain build whose uploader reads text files and whose
  generator is a mock (lines 1 to 427), and a JSX build whose uploader reads PDF
  layouts and whose generator calls the generation service (lines 428 to 1116).
  Definitions that exist in both builds carry the suffix \<open>_plain\<close> or \<open>_jsx\<close>.

  Strings are lists of code units below 256. A value that came out of
  \<^verbatim>\<open>JSON.parse\<close> is a \<open>json\<close>, where \<open>JObj\<close> lists the own properties of an object,
  each key once; \<^verbatim>\<open>undefined\<close> is \<open>None\<close> of an option.
\<close>

datatype json =
    JNull
  | JBool bool
  | JNum rat
  | JStr string
  | JArr "json list"
  | JObj "(string \<times> json) list"

text \<open>JavaScript truthiness, as \<^verbatim>\<open>&&\<close>, \<^verbatim>\<open>||\<close> and \<^verbatim>\<open>if\<close> read a value.\<close>

fun truthy :: "json \<Rightarrow> bool" where
  "truthy JNull = False"
| "truthy (JBool b) = b"
| "truthy (JNum r) = (r \<noteq> 0)"
| "truthy (JStr s) = (s \<noteq> [])"
| "truthy (JArr xs) = True"
| "truthy (JObj kvs) = True"

fun truthy_opt :: "json option \<Rightarrow> bool" where
  "truthy_opt None = False"
| "truthy_opt (Some v) = truthy v"

datatype js_error =
    Error string
  | TypeError string
  | SyntaxError string

fun message :: "js_error \<Rightarrow> string" where
  "message (Error m) = m"
| "message (TypeError m) = m"
| "message (SyntaxError m) = m"

text \<open>
  What the browser supplies: \<^verbatim>\<open>JSON.parse\<close> (\<open>Inl\<close> is the error it throws), the
  error thrown when the named property of \<^verbatim>\<open>null\<close> or \<^verbatim>\<open>undefined\<close> is read,
  \<^verbatim>\<open>parseInt\<close> (\<open>None\<close> is \<^verbatim>\<open>NaN\<close>), and whether \<^verbatim>\<open>window.pdfjsLib\<close> is loaded.
\<close>

record engine =
  JSON_parse :: "string \<Rightarrow> js_error + json"
  null_read :: "string \<Rightarrow> js_error"
  parseInt :: "string \<Rightarrow> rat option"
  pdfjsLib :: bool

text \<open>
  Reading a property \<^verbatim>\<open>v.k\<close> of a parsed value: it throws on \<^verbatim>\<open>null\<close>, finds own
  properties of an object, and is \<^verbatim>\<open>undefined\<close> on every other value for the two
  keys the application reads (\<^verbatim>\<open>extracted_title\<close>, \<^verbatim>\<open>extracted_author\<close>).
\<close>

fun own_prop :: "json \<Rightarrow> string \<Rightarrow> json option" where
  "own_prop (JObj kvs) k = map_of kvs k"
| "own_prop v k = None"

definition get_prop :: "engine \<Rightarrow> json \<Rightarrow> string \<Rightarrow> js_error + json option" where
  "get_prop eng v k = (if v = JNull then Inl (null_read eng k) else Inr (own_prop v k))"

text \<open>\<^verbatim>\<open>String(n)\<close> for a non-negative integer: its decimal digits.\<close>

definition digit :: "nat \<Rightarrow> char" where
  "digit d = char_of (48 + d)"

function String_nat :: "nat \<Rightarrow> string" where
  "String_nat n = (if n < 10 then [digit n] else String_nat (n div 10) @ [digit (n mod 10)])"
  by pat_completeness auto
termination
  by (relation "measure (\<lambda>n. n)") auto

declare String_nat.simps [simp del]

section \<open>Data model\<close>

datatype status = Pending | Completed

text \<open>
  A scene object \<^verbatim>\<open>{ status, text?, prompt?, videoUrl? }\<close>. A field that the object
  does not have is \<open>None\<close>; a \<open>prompt\<close> that is present holds any parsed value,
  \<^verbatim>\<open>null\<close> included.
\<close>

record scene =
  status :: status
  scene_text :: "string option"
  prompt :: "json option"
  videoUrl :: "string option"

text \<open>
  A project as \<^verbatim>\<open>createNewProject\<close> builds it. \<open>name\<close> and \<open>author\<close> are
  strings in every project the application creates, and later hold whatever value
  the cover response carried.
\<close>

record project =
  project_id :: string
  name :: json
  author :: json
  storyText :: string
  totalPages :: nat
  scenes :: "string \<rightharpoonup> scene"
  createdAt :: string

definition createNewProject :: "string \<Rightarrow> string \<Rightarrow> project" where
  "createNewProject now_id now_iso =
     \<lparr> project_id = now_id, name = JStr ''Untitled Project'', author = JStr ''Unknown Author'',
       storyText = [], totalPages = 0, scenes = Map.empty, createdAt = now_iso \<rparr>"

section \<open>Navigation\<close>

text \<open>\<^verbatim>\<open>Array.from({ length: n }, (_, i) => String(i + 1))\<close>\<close>

definition page_ids :: "nat \<Rightarrow> string list" where
  "page_ids n = map (\<lambda>i. String_nat (i + 1)) [0..<n]"

text \<open>
  The test both \<^verbatim>\<open>find\<close> and \<^verbatim>\<open>findIndex\<close> are called with:
  \<^verbatim>\<open>id => !project.scenes[id] || project.scenes[id].status !== 'completed'\<close>
\<close>

definition not_completed :: "project \<Rightarrow> string \<Rightarrow> bool" where
  "not_completed p sid =
     (case scenes p sid of None \<Rightarrow> True | Some s \<Rightarrow> status s \<noteq> Completed)"

text \<open>\<^verbatim>\<open>Array.prototype.findIndex\<close>: the first index whose element passes, else -1.\<close>

fun findIndex_from :: "('a \<Rightarrow> bool) \<Rightarrow> 'a list \<Rightarrow> int \<Rightarrow> int" where
  "findIndex_from P [] k = -1"
| "findIndex_from P (x # xs) k = (if P x then k else findIndex_from P xs (k + 1))"

definition findIndex :: "('a \<Rightarrow> bool) \<Rightarrow> 'a list \<Rightarrow> int" where
  "findIndex P xs = findIndex_from P xs 0"

text \<open>\<^verbatim>\<open>PageNavigation\<close> (lines 191 to 203 and 627 to 639, the same in both builds).\<close>

definition navItems :: "project \<Rightarrow> string list" where
  "navItems p =
     (if totalPages p > 0 then ''cover'' # page_ids (totalPages p) @ [''end''] else [])"

definition firstPendingSceneIndex :: "project \<Rightarrow> int" where
  "firstPendingSceneIndex p = findIndex (not_completed p) (navItems p)"

definition isDisabled :: "project \<Rightarrow> nat \<Rightarrow> bool" where
  "isDisabled p index =
     (firstPendingSceneIndex p \<noteq> -1 \<and> int index > firstPendingSceneIndex p)"

section \<open>Document ingestion: splitting the text into pages\<close>

definition nl :: char where
  "nl = CHR 0x0A"

text \<open>
  The code units below 256 that the regular expression class \<^verbatim>\<open>\s\<close> matches and that
  \<^verbatim>\<open>String.prototype.trim\<close> strips: tab, line feed, vertical tab, form feed, carriage
  return, space and no-break space.
\<close>

definition isSpace :: "char \<Rightarrow> bool" where
  "isSpace c = (c \<in> set [CHR 0x09, CHR 0x0A, CHR 0x0B, CHR 0x0C, CHR 0x0D, CHR 0x20, CHR 0xA0])"

definition trim :: "string \<Rightarrow> string" where
  "trim s = rev (dropWhile isSpace (rev (dropWhile isSpace s)))"

text \<open>
  The regular expression \<^verbatim>\<open>/\n\s*\n/\<close> matched at the start of a string. After the
  first line feed the greedy \<^verbatim>\<open>\s*\<close> takes the whole run of white space and gives
  characters back until a line feed follows, so the match ends behind the last line
  feed of that run. \<open>match_tail\<close> is the length of \<^verbatim>\<open>\s*\n\<close> inside the run.
\<close>

definition match_tail :: "string \<Rightarrow> nat option" where
  "match_tail run =
     (if nl \<in> set run then Some (length (dropWhile (\<lambda>c. c \<noteq> nl) (rev run))) else None)"

fun match_blank :: "string \<Rightarrow> nat option" where
  "match_blank [] = None"
| "match_blank (c # rest) =
     (if c = nl then map_option Suc (match_tail (takeWhile isSpace rest)) else None)"

text \<open>
  \<^verbatim>\<open>text.split(/\n\s*\n/)\<close>: the scan of \<^verbatim>\<open>String.prototype.split\<close>. \<open>cur\<close> is the
  segment read since the last separator, the second argument is the rest of the text.
\<close>

function split_blank_from :: "string \<Rightarrow> string \<Rightarrow> string list" where
  "split_blank_from cur [] = [cur]"
| "split_blank_from cur (c # cs) =
     (case match_blank (c # cs) of
        Some n \<Rightarrow> cur # split_blank_from [] (drop n (c # cs))
      | None \<Rightarrow> split_blank_from (cur @ [c]) cs)"
  by pat_completeness auto
termination
  by (relation "measure (\<lambda>(cur, s). length s)") (auto split: if_splits)

definition split_blank :: "string \<Rightarrow> string list" where
  "split_blank s = split_blank_from [] s"

text \<open>
  Lines 272 to 277 and 731 to 736 of \<^verbatim>\<open>handleFileChange\<close>, the same in both builds:
  the local variables \<^verbatim>\<open>pages\<close>, \<^verbatim>\<open>totalPages\<close> and \<^verbatim>\<open>scenes\<close> as functions of
  \<^verbatim>\<open>text\<close>.
\<close>

definition pages :: "string \<Rightarrow> string list" where
  "pages txt = filter (\<lambda>p. trim p \<noteq> []) (split_blank txt)"

definition totalPages_of :: "string \<Rightarrow> nat" where
  "totalPages_of txt = (if length (pages txt) > 0 then length (pages txt) else 1)"

definition pending_scene :: "string option \<Rightarrow> scene" where
  "pending_scene t = \<lparr> status = Pending, scene_text = t, prompt = None, videoUrl = None \<rparr>"

text \<open>\<^verbatim>\<open>pages[i-1] || ''\<close>\<close>

definition page_text :: "string list \<Rightarrow> nat \<Rightarrow> string" where
  "page_text ps i = (if i - 1 < length ps then ps ! (i - 1) else [])"

definition scenes_of :: "string \<Rightarrow> (string \<rightharpoonup> scene)" where
  "scenes_of txt =
     fold (\<lambda>i m. m(String_nat i \<mapsto> pending_scene (Some (page_text (pages txt) i))))
       [1..<Suc (totalPages_of txt)]
       [''cover'' \<mapsto> pending_scene None, ''end'' \<mapsto> pending_scene None]"

section \<open>Application state and project updates\<close>

text \<open>
  The object passed to \<^verbatim>\<open>updateProject\<close>: the top-level fields it has. The update is
  the spread \<^verbatim>\<open>{ ...p, ...updatedData }\<close> on the project with the given id.
\<close>

record updatedData =
  u_id :: "string option"
  u_name :: "json option"
  u_author :: "json option"
  u_storyText :: "string option"
  u_totalPages :: "nat option"
  u_scenes :: "(string \<rightharpoonup> scene) option"
  u_createdAt :: "string option"

definition no_update :: updatedData where
  "no_update = \<lparr> u_id = None, u_name = None, u_author = None, u_storyText = None,
     u_totalPages = None, u_scenes = None, u_createdAt = None \<rparr>"

definition spread :: "project \<Rightarrow> updatedData \<Rightarrow> project" where
  "spread p u =
     \<lparr> project_id = (case u_id u of None \<Rightarrow> project_id p | Some v \<Rightarrow> v),
       name = (case u_name u of None \<Rightarrow> name p | Some v \<Rightarrow> v),
       author = (case u_author u of None \<Rightarrow> author p | Some v \<Rightarrow> v),
       storyText = (case u_storyText u of None \<Rightarrow> storyText p | Some v \<Rightarrow> v),
       totalPages = (case u_totalPages u of None \<Rightarrow> totalPages p | Some v \<Rightarrow> v),
       scenes = (case u_scenes u of None \<Rightarrow> scenes p | Some v \<Rightarrow> v),
       createdAt = (case u_createdAt u of None \<Rightarrow> createdAt p | Some v \<Rightarrow> v) \<rparr>"

text \<open>The whole project object as an update, as the PDF uploader passes it.\<close>

definition whole :: "project \<Rightarrow> updatedData" where
  "whole p = \<lparr> u_id = Some (project_id p), u_name = Some (name p), u_author = Some (author p),
     u_storyText = Some (storyText p), u_totalPages = Some (totalPages p),
     u_scenes = Some (scenes p), u_createdAt = Some (createdAt p) \<rparr>"

text \<open>
  The request body of one \<^verbatim>\<open>fetch\<close>: the text part and, when an image was given, the
  inline JPEG data. The URL, the headers and \<^verbatim>\<open>generationConfig\<close> are constants.
\<close>

record payload =
  text_part :: string
  inlineData :: "string option"

text \<open>
  The state the handlers act on: the \<^verbatim>\<open>projects\<close> array of \<^verbatim>\<open>App\<close>, the
  \<^verbatim>\<open>currentSceneId\<close> and \<^verbatim>\<open>error\<close> states of \<^verbatim>\<open>ProjectWorkspace\<close>, and the requests
  sent to the generation service so far.
\<close>

record world =
  projects :: "project list"
  currentSceneId :: string
  error :: string
  requests :: "payload list"

definition updateProject :: "string \<Rightarrow> updatedData \<Rightarrow> world \<Rightarrow> world" where
  "updateProject projectId u w =
     w\<lparr> projects := map (\<lambda>p. if project_id p = projectId then spread p u else p) (projects w) \<rparr>"

definition setError :: "string \<Rightarrow> world \<Rightarrow> world" where
  "setError m w = w\<lparr> error := m \<rparr>"

definition setCurrentSceneId :: "string \<Rightarrow> world \<Rightarrow> world" where
  "setCurrentSceneId sid w = w\<lparr> currentSceneId := sid \<rparr>"

section \<open>Prompt builder\<close>

definition systemInstruction :: string where
  "systemInstruction = ''You are an expert animation director for children's content. Your task is to analyze a single children's book scene (text and illustration) within the context of an entire story. You will generate a structured JSON object that serves as a technical animation prompt. All descriptions must be child-friendly and safe.''"

definition cover_task :: string where
  "cover_task = ''Analyze the attached book cover image. Based on the visuals, generate a dynamic opening title sequence animation. IMPORTANT: Also, extract the book's title and author's name from the cover image text. Populate the 'extracted_title' and 'extracted_author' fields in the JSON. The animation should hint at the story's main themes and characters.''"

definition end_task :: string where
  "end_task = ''All pages are complete. Generate a concluding animation prompt. This should be a gentle, summary scene, perhaps a final shot of the main character or a pan across the main setting, evoking a feeling of happy resolution. Use the full story context for inspiration.''"

definition page_task :: "string \<Rightarrow> string" where
  "page_task sceneId = ''Analyze the attached illustration and its corresponding text for Page '' @ sceneId @ ''. Generate a detailed animation prompt based on these assets, interpreted within the broader context of the full story provided below.''"

definition feedback_directive :: "string \<Rightarrow> string" where
  "feedback_directive feedback = [nl, nl] @ ''REGENERATION FEEDBACK: The previous attempt was not quite right. Please regenerate the JSON, taking this user feedback into account: \"'' @ feedback @ ''\"''"

definition indent :: string where
  "indent = replicate 8 (CHR 0x20)"

text \<open>\<^verbatim>\<open>buildApiPromptText\<close> (lines 1029 to 1058).\<close>

definition buildApiPromptText :: "project \<Rightarrow> string \<Rightarrow> string \<Rightarrow> string" where
  "buildApiPromptText project sceneId feedback =
     (let sceneText = (case scenes project sceneId of
                         None \<Rightarrow> []
                       | Some s \<Rightarrow> (case scene_text s of None \<Rightarrow> [] | Some t \<Rightarrow> t));
          fullStoryContext = (if storyText project \<noteq> [] then storyText project
                              else ''No story context provided yet.'');
          task0 = (if sceneId = ''cover'' then cover_task
                   else if sceneId = ''end'' then end_task
                   else page_task sceneId);
          taskInstruction = (if feedback \<noteq> [] then task0 @ feedback_directive feedback else task0)
      in [nl] @ indent @ ''SYSTEM INSTRUCTION: '' @ systemInstruction
         @ [nl] @ indent @ ''FULL STORY CONTEXT:''
         @ [nl] @ indent @ fullStoryContext
         @ [nl] @ indent @ ''---''
         @ [nl] @ indent @ ''CURRENT SCENE ANALYSIS TASK:''
         @ [nl] @ indent @ ''- Scene ID: '' @ sceneId
         @ [nl] @ indent @ ''- Scene Text (if applicable): \"'' @ sceneText @ ''\"''
         @ [nl] @ indent @ ''- Task: '' @ taskInstruction
         @ [nl] @ indent @ ''Now, populate the JSON schema based on this task.''
         @ [nl] @ replicate 4 (CHR 0x20))"

section \<open>Generation client\<close>

text \<open>
  What the service answered, as far as \<^verbatim>\<open>generateScene\<close> reads it. \<open>body_text\<close> and
  \<open>body_json\<close> are what \<^verbatim>\<open>response.text()\<close> and \<^verbatim>\<open>response.json()\<close> resolve to
  (\<open>Inl\<close> when they reject; the body \<^verbatim>\<open>null\<close> is \<open>Inr None\<close>); an absent property is
  \<open>None\<close>.
\<close>

record part =
  part_text :: "string option"

record content =
  parts :: "part list option"

record candidate =
  content :: "content option"

record result =
  candidates :: "candidate list option"

record response =
  ok :: bool
  resp_status :: nat
  statusText :: string
  body_text :: "js_error + string"
  body_json :: "js_error + result option"

text \<open>\<^verbatim>\<open>result.candidates[0].content.parts[0].text\<close> for a non-empty candidate list.\<close>

definition first_text :: "engine \<Rightarrow> candidate \<Rightarrow> js_error + string option" where
  "first_text eng c =
     (case content c of
        None \<Rightarrow> Inl (null_read eng ''parts'')
      | Some ct \<Rightarrow>
          (case parts ct of
             None \<Rightarrow> Inl (null_read eng ''0'')
           | Some [] \<Rightarrow> Inl (null_read eng ''text'')
           | Some (p # ps) \<Rightarrow> Inr (part_text p)))"

text \<open>The \<^verbatim>\<open>payload\<close> that \<^verbatim>\<open>generateScene\<close> builds and sends (lines 1061 to 1074).\<close>

definition payload_of :: "project \<Rightarrow> string \<Rightarrow> string \<Rightarrow> string \<Rightarrow> payload" where
  "payload_of project sceneId imageBase64 feedback =
     \<lparr> text_part = buildApiPromptText project sceneId feedback,
       inlineData = (if imageBase64 \<noteq> [] then Some imageBase64 else None) \<rparr>"

text \<open>
  \<^verbatim>\<open>generateScene\<close> (lines 1060 to 1105). The argument \<open>fetched\<close> is what the one
  \<^verbatim>\<open>fetch\<close> resolves to (\<open>Inl\<close> when it rejects). The function returns the parsed
  prompt or the error it throws, and the state with the request recorded; the
  arguments \<^verbatim>\<open>updateProject\<close> and \<^verbatim>\<open>setError\<close> of the source are never called.
\<close>

definition generateScene ::
  "engine \<Rightarrow> js_error + response \<Rightarrow> project \<Rightarrow> string \<Rightarrow> string \<Rightarrow> string \<Rightarrow> world
     \<Rightarrow> (js_error + json) \<times> world" where
  "generateScene eng fetched project sceneId imageBase64 feedback w =
     (let w' = w\<lparr> requests := requests w @ [payload_of project sceneId imageBase64 feedback] \<rparr>
      in (case fetched of
            Inl e \<Rightarrow> (Inl e, w')
          | Inr response \<Rightarrow>
              if \<not> ok response then
                (case body_text response of
                   Inl e \<Rightarrow> (Inl e, w')
                 | Inr errorBody \<Rightarrow>
                     (Inl (Error (''API Error: '' @ String_nat (resp_status response) @ '' ''
                                  @ statusText response @ '' - '' @ errorBody)), w'))
              else
                (case body_json response of
                   Inl e \<Rightarrow> (Inl e, w')
                 | Inr None \<Rightarrow> (Inl (null_read eng ''candidates''), w')
                 | Inr (Some result) \<Rightarrow>
                     (case candidates result of
                        Some (c # cs) \<Rightarrow>
                          (case first_text eng c of
                             Inl e \<Rightarrow> (Inl e, w')
                           | Inr jsonText \<Rightarrow>
                               (JSON_parse eng (case jsonText of None \<Rightarrow> ''undefined''
                                                | Some t \<Rightarrow> t), w'))
                      | _ \<Rightarrow>
                          (Inl (Error ''The model returned an empty or invalid response.''), w')))))"

text \<open>\<^verbatim>\<open>generateVideoFromPrompt\<close> (lines 1108 to 1112): the simulated synthesis.\<close>

definition generateVideoFromPrompt :: "json \<Rightarrow> string" where
  "generateVideoFromPrompt newPrompt =
     ''https://storage.googleapis.com/gtv-videos-bucket/sample/ForBiggerFun.mp4''"

section \<open>Scene generation\<close>

text \<open>\<^verbatim>\<open>{ ...project.scenes[sceneId], status: 'completed', prompt: newPrompt, videoUrl }\<close>\<close>

definition completed_over :: "scene option \<Rightarrow> json \<Rightarrow> string \<Rightarrow> scene" where
  "completed_over old newPrompt url =
     \<lparr> status = Completed,
       scene_text = (case old of None \<Rightarrow> None | Some s \<Rightarrow> scene_text s),
       prompt = Some newPrompt,
       videoUrl = Some url \<rparr>"

text \<open>\<^verbatim>\<open>a || b\<close> where \<open>a\<close> is a property that was read and \<open>b\<close> a value.\<close>

definition or_else :: "json option \<Rightarrow> json \<Rightarrow> json" where
  "or_else a b = (case a of None \<Rightarrow> b | Some v \<Rightarrow> if truthy v then v else b)"

text \<open>
  \<^verbatim>\<open>handleGenerate\<close> of the JSX build (lines 913 to 951). \<open>project\<close>, \<open>sceneId\<close> and
  \<open>isRegenerating\<close> are the props of \<^verbatim>\<open>SceneGeneratorUI\<close>; \<open>imageBase64\<close> and
  \<open>feedback\<close> are its states.
\<close>

definition handleGenerate_jsx ::
  "engine \<Rightarrow> js_error + response \<Rightarrow> project \<Rightarrow> string \<Rightarrow> string \<Rightarrow> string \<Rightarrow> bool
     \<Rightarrow> world \<Rightarrow> world" where
  "handleGenerate_jsx eng fetched project sceneId imageBase64 feedback isRegenerating w =
     (if (sceneId \<noteq> ''end'' \<and> imageBase64 = []) \<and> \<not> isRegenerating
      then setError ''Please upload an illustration for this page.'' w
      else
        (case generateScene eng fetched project sceneId imageBase64 feedback (setError [] w) of
           (Inl err, w1) \<Rightarrow> setError (''Operation failed: '' @ message err @ ''.'') w1
         | (Inr newPrompt, w1) \<Rightarrow>
             (let url = generateVideoFromPrompt newPrompt;
                  updatedScenes = (scenes project)
                    (sceneId \<mapsto> completed_over (scenes project sceneId) newPrompt url);
                  projectUpdates = no_update\<lparr> u_scenes := Some updatedScenes \<rparr>
              in if sceneId = ''cover'' then
                   (case get_prop eng newPrompt ''extracted_title'' of
                      Inl err \<Rightarrow> setError (''Operation failed: '' @ message err @ ''.'') w1
                    | Inr title \<Rightarrow>
                        if truthy_opt title then
                          (case get_prop eng newPrompt ''extracted_author'' of
                             Inl err \<Rightarrow> setError (''Operation failed: '' @ message err @ ''.'') w1
                           | Inr extracted_author \<Rightarrow>
                               updateProject (project_id project)
                                 (projectUpdates\<lparr> u_name := title,
                                    u_author := Some (or_else extracted_author
                                                        (JStr ''Unknown Author'')) \<rparr>) w1)
                        else updateProject (project_id project) projectUpdates w1)
                 else updateProject (project_id project) projectUpdates w1)))"

text \<open>
  \<^verbatim>\<open>handleGenerate\<close> of the plain build (lines 333 to 364): a simulated generation
  that needs no image and sends no request.
\<close>

definition mockPrompt :: "engine \<Rightarrow> string \<Rightarrow> json" where
  "mockPrompt eng sceneId =
     JObj [(''page_number'',
              JNum (if sceneId = ''cover'' then 0
                    else (case parseInt eng sceneId of
                            None \<Rightarrow> 999
                          | Some r \<Rightarrow> if r = 0 then 999 else r))),
           (''scene_summary'', JStr (''Mock animation for '' @ sceneId)),
           (''animation_style'',
              JObj [(''style'', JStr ''cartoon''), (''color_palette'', JStr ''vibrant''),
                    (''tone'', JStr ''cheerful'')])]"

definition handleGenerate_plain :: "engine \<Rightarrow> project \<Rightarrow> string \<Rightarrow> world \<Rightarrow> world" where
  "handleGenerate_plain eng project sceneId w =
     (let updatedScenes = (scenes project)
            (sceneId \<mapsto> completed_over (scenes project sceneId) (mockPrompt eng sceneId)
               ''https://storage.googleapis.com/gtv-videos-bucket/sample/ForBiggerFun.mp4'')
      in updateProject (project_id project) (no_update\<lparr> u_scenes := Some updatedScenes \<rparr>)
           (setError [] w))"

text \<open>
  \<^verbatim>\<open>SceneGenerator\<close> (lines 666 to 678): which component is shown for the current
  scene. Only \<^verbatim>\<open>CompletedSceneViewer\<close> renders \<^verbatim>\<open>SceneGeneratorUI\<close> with
  \<^verbatim>\<open>isRegenerating={true}\<close>; \<^verbatim>\<open>SceneGenerator\<close> itself leaves the default \<^verbatim>\<open>false\<close>.
\<close>

datatype view = LayoutUploader | CompletedSceneViewer | SceneGeneratorUI

definition SceneGenerator :: "project \<Rightarrow> string \<Rightarrow> view" where
  "SceneGenerator project sid =
     (if storyText project = [] then LayoutUploader
      else (case scenes project sid of
              Some s \<Rightarrow> if status s = Completed then CompletedSceneViewer else SceneGeneratorUI
            | None \<Rightarrow> SceneGeneratorUI))"

section \<open>Document ingestion: the uploaders\<close>

text \<open>
  An uploaded file: its name, what \<^verbatim>\<open>file.text()\<close> resolves to, and what pdf.js makes
  of it. A PDF is read as the strings of the text items of each page and the JPEG
  data rendered from page 1 (\<open>Inl\<close> where a promise rejects).
\<close>

record pdf =
  page_items :: "string list list"
  cover_jpeg :: "js_error + string"

record upload =
  file_name :: string
  file_text :: "js_error + string"
  file_pdf :: "js_error + pdf"

definition endsWith :: "string \<Rightarrow> string \<Rightarrow> bool" where
  "endsWith s suffix =
     (length suffix \<le> length s \<and> drop (length s - length suffix) s = suffix)"

text \<open>\<^verbatim>\<open>items.map(item => item.str).join(' ')\<close>\<close>

fun join_space :: "string list \<Rightarrow> string" where
  "join_space [] = []"
| "join_space [x] = x"
| "join_space (x # y # ys) = x @ '' '' @ join_space (y # ys)"

definition fullText :: "pdf \<Rightarrow> string" where
  "fullText d = concat (map (\<lambda>items. join_space items @ [nl, nl]) (page_items d))"

text \<open>\<^verbatim>\<open>handleFileChange\<close> of the plain build (lines 250 to 295): text files.\<close>

definition handleFileChange_plain :: "upload option \<Rightarrow> project \<Rightarrow> world \<Rightarrow> world" where
  "handleFileChange_plain chosen project w =
     (case chosen of
        None \<Rightarrow> w
      | Some f \<Rightarrow>
          (let w1 = setError [] w
           in if endsWith (file_name f) ''.pdf'' then
                setError ''PDF parsing requires additional setup. Please use a text file for now.'' w1
              else
                (case (if endsWith (file_name f) ''.txt'' then file_text f
                       else Inl (Error ''Unsupported file type. Please upload a text file.'')) of
                   Inl err \<Rightarrow> setError (message err) w1
                 | Inr txt \<Rightarrow>
                     if trim txt = [] then
                       setError (message (Error ''File is empty or text could not be extracted.'')) w1
                     else
                       setCurrentSceneId ''cover''
                         (updateProject (project_id project)
                            (no_update\<lparr> u_storyText := Some txt,
                               u_totalPages := Some (totalPages_of txt),
                               u_scenes := Some (scenes_of txt),
                               u_name := Some (JStr ''My Animation Project''),
                               u_author := Some (JStr ''Author Name'') \<rparr>) w1))))"

text \<open>
  \<^verbatim>\<open>handleFileChange\<close> of the JSX build (lines 688 to 764): PDF layouts. \<open>extract_pdf\<close>
  is lines 700 to 727, the text and the cover image or the error thrown.
\<close>

definition extract_pdf :: "engine \<Rightarrow> upload \<Rightarrow> js_error + string \<times> string" where
  "extract_pdf eng f =
     (if endsWith (file_name f) ''.pdf'' then
        (if \<not> pdfjsLib eng then Inl (Error ''PDF parsing library not loaded.'')
         else (case file_pdf f of
                 Inl err \<Rightarrow> Inl err
               | Inr d \<Rightarrow>
                   (case cover_jpeg d of
                      Inl err \<Rightarrow> Inl err
                    | Inr coverImageBase64 \<Rightarrow> Inr (fullText d, coverImageBase64))))
      else Inl (Error ''Unsupported file type. Please upload a PDF layout file.''))"

definition handleFileChange_jsx ::
  "engine \<Rightarrow> js_error + response \<Rightarrow> upload option \<Rightarrow> project \<Rightarrow> world \<Rightarrow> world" where
  "handleFileChange_jsx eng fetched chosen project w =
     (case chosen of
        None \<Rightarrow> w
      | Some f \<Rightarrow>
          (let w1 = setError [] w
           in (case extract_pdf eng f of
                 Inl err \<Rightarrow> setError (message err) w1
               | Inr (txt, coverImageBase64) \<Rightarrow>
                   if trim txt = [] then
                     setError (message (Error ''File is empty or text could not be extracted.'')) w1
                   else
                     (let initialProjectState =
                            project\<lparr> storyText := txt, totalPages := totalPages_of txt,
                                     scenes := scenes_of txt \<rparr>
                      in (case generateScene eng fetched initialProjectState ''cover''
                                 coverImageBase64 [] w1 of
                            (Inl err, w2) \<Rightarrow> setError (message err) w2
                          | (Inr newPrompt, w2) \<Rightarrow>
                              (let url = generateVideoFromPrompt newPrompt;
                                   finalScenes = (scenes initialProjectState)
                                     (''cover'' \<mapsto> \<lparr> status = Completed, scene_text = None,
                                                      prompt = Some newPrompt, videoUrl = Some url \<rparr>)
                               in (case get_prop eng newPrompt ''extracted_title'' of
                                     Inl err \<Rightarrow> setError (message err) w2
                                   | Inr title \<Rightarrow>
                                       (case get_prop eng newPrompt ''extracted_author'' of
                                          Inl err \<Rightarrow> setError (message err) w2
                                        | Inr extracted_author \<Rightarrow>
                                            (let finalProjectState =
                                                   initialProjectState
                                                     \<lparr> scenes := finalScenes,
                                                       name := or_else title (name project),
                                                       author := or_else extracted_author
                                                                   (author project) \<rparr>
                                             in setCurrentSceneId ''cover''
                                                  (updateProject (project_id project)
                                                     (whole finalProjectState) w2))))))))))"

section \<open>Advancing the current scene\<close>

text \<open>
  The effect of \<^verbatim>\<open>ProjectWorkspace\<close>, which React runs after every render in which the
  project's scene map, story text or page count, or \<^verbatim>\<open>currentSceneId\<close>, has changed.
  Its navigation list has no guard on \<^verbatim>\<open>totalPages\<close>.
\<close>

definition effect_navItems :: "project \<Rightarrow> string list" where
  "effect_navItems p = ''cover'' # page_ids (totalPages p) @ [''end'']"

definition firstPendingScene :: "project \<Rightarrow> string option" where
  "firstPendingScene p = find (not_completed p) (effect_navItems p)"

text \<open>
  \<^verbatim>\<open>if (firstPendingScene && firstPendingScene !== currentSceneId)
       setCurrentSceneId(firstPendingScene)\<close>
\<close>

definition advance :: "project \<Rightarrow> world \<Rightarrow> world" where
  "advance p w =
     (case firstPendingScene p of
        Some f \<Rightarrow> if f \<noteq> [] \<and> f \<noteq> currentSceneId w then setCurrentSceneId f w else w
      | None \<Rightarrow> w)"

text \<open>The effect of the plain build (lines 159 to 167).\<close>

definition ProjectWorkspace_effect_plain :: "project \<Rightarrow> world \<Rightarrow> world" where
  "ProjectWorkspace_effect_plain p w =
     (if storyText p \<noteq> [] \<and> not_completed p (currentSceneId w) then advance p w else w)"

text \<open>The effect of the JSX build (lines 593 to 603).\<close>

definition ProjectWorkspace_effect_jsx :: "project \<Rightarrow> world \<Rightarrow> world" where
  "ProjectWorkspace_effect_jsx p w =
     (if storyText p \<noteq> [] then advance p w else setCurrentSceneId ''cover'' w)"

section \<open>Reachable states\<close>

text \<open>
  The states each build can reach from an empty project list: creating and deleting
  projects, uploading a document and generating a scene. The handlers are
  asynchronous and close over the \<^verbatim>\<open>project\<close> prop of the render in which they
  started, so the project they read may be a project of an earlier state.
\<close>

datatype build = Plain | Jsx

definition initial_world :: world where
  "initial_world = \<lparr> projects = [], currentSceneId = ''cover'', error = [], requests = [] \<rparr>"

inductive reachable :: "build \<Rightarrow> world \<Rightarrow> bool" where
  start: "reachable b initial_world"
| create: "reachable b w \<Longrightarrow>
     reachable b (w\<lparr> projects := projects w @ [createNewProject now_id now_iso] \<rparr>)"
| delete: "reachable b w \<Longrightarrow>
     reachable b (w\<lparr> projects := filter (\<lambda>p. project_id p \<noteq> i) (projects w) \<rparr>)"
| navigate: "reachable b w \<Longrightarrow> reachable b (setCurrentSceneId sid w)"
| upload_plain: "reachable Plain w \<Longrightarrow> reachable Plain w0 \<Longrightarrow> p \<in> set (projects w0) \<Longrightarrow>
     reachable Plain (handleFileChange_plain chosen p w)"
| generate_plain: "reachable Plain w \<Longrightarrow> reachable Plain w0 \<Longrightarrow> p \<in> set (projects w0) \<Longrightarrow>
     reachable Plain (handleGenerate_plain eng p sceneId w)"
| upload_jsx: "reachable Jsx w \<Longrightarrow> reachable Jsx w0 \<Longrightarrow> p \<in> set (projects w0) \<Longrightarrow>
     reachable Jsx (handleFileChange_jsx eng fetched chosen p w)"
| generate_jsx: "reachable Jsx w \<Longrightarrow> reachable Jsx w0 \<Longrightarrow> p \<in> set (projects w0) \<Longrightarrow>
     reachable Jsx (handleGenerate_jsx eng fetched p sceneId imageBase64 feedback isRegenerating w)"

section \<open>Example data\<close>

text \<open>
  \<^verbatim>\<open>JSON.parse\<close> on the payloads of the examples, and \<^verbatim>\<open>parseInt\<close> on their scene
  ids. The examples apply them to no other text.
\<close>

definition cover_payload :: string where
  "cover_payload = ''{\"extracted_title\":\"Foo\",\"extracted_author\":\"Bar\"}''"

definition page_payload :: string where
  "page_payload = ''{\"scene_summary\":\"A fox runs\"}''"

definition retitled_payload :: string where
  "retitled_payload = ''{\"extracted_title\":\"Baz\"}''"

definition demo_JSON_parse :: "string \<Rightarrow> js_error + json" where
  "demo_JSON_parse s =
     (if s = ''null'' then Inr JNull
      else if s = cover_payload then
        Inr (JObj [(''extracted_title'', JStr ''Foo''), (''extracted_author'', JStr ''Bar'')])
      else if s = page_payload then Inr (JObj [(''scene_summary'', JStr ''A fox runs'')])
      else if s = retitled_payload then Inr (JObj [(''extracted_title'', JStr ''Baz'')])
      else Inl (SyntaxError ''Unexpected token''))"

definition demo_engine :: engine where
  "demo_engine =
     \<lparr> JSON_parse = demo_JSON_parse,
       null_read = (\<lambda>k. TypeError (''Cannot read properties of null (reading '' @ k @ '')'')),
       parseInt = (\<lambda>s. if s = ''1'' then Some 1 else if s = ''2'' then Some 2 else None),
       pdfjsLib = True \<rparr>"

text \<open>A successful answer of the service with one candidate carrying the given text.\<close>

definition ok_response :: "string \<Rightarrow> response" where
  "ok_response t =
     \<lparr> ok = True, resp_status = 200, statusText = ''OK'', body_text = Inr t,
       body_json = Inr (Some \<lparr> candidates =
         Some [\<lparr> content = Some \<lparr> parts = Some [\<lparr> part_text = Some t \<rparr>] \<rparr> \<rparr>] \<rparr>) \<rparr>"


definition error_500 :: response where
  "error_500 =
     \<lparr> ok = False, resp_status = 500, statusText = ''Internal Server Error'',
       body_text = Inr ''overloaded'',
       body_json = Inl (SyntaxError ''Unexpected token'') \<rparr>"

definition book_pdf :: upload where
  "book_pdf =
     \<lparr> file_name = ''book.pdf'', file_text = Inr ''%PDF'',
       file_pdf = Inr \<lparr> page_items = [[''Page1''], [''Page2'']], cover_jpeg = Inr ''/9j/4AAQ'' \<rparr> \<rparr>"

definition story_txt :: upload where
  "story_txt =
     \<lparr> file_name = ''story.txt'', file_text = Inr (''Page1'' @ [nl, nl] @ ''Page2''),
       file_pdf = Inl (Error ''Invalid PDF structure.'') \<rparr>"

definition new_project :: project where
  "new_project = createNewProject ''proj_1'' ''2024-01-01T00:00:00.000Z''"

definition world0 :: world where
  "world0 = initial_world\<lparr> projects := projects initial_world @ [new_project] \<rparr>"


text \<open>
  The JSX build after the upload of \<open>book_pdf\<close> with the service answering
  \<open>cover_payload\<close>, and then after generating page 1 from that state with an image
  and the service answering \<^verbatim>\<open>null\<close>.
\<close>

definition world_pdf :: world where
  "world_pdf =
     handleFileChange_jsx demo_engine (Inr (ok_response cover_payload)) (Some book_pdf)
       new_project world0"

definition project_pdf :: project where
  "project_pdf = hd (projects world_pdf)"

definition world_null :: world where
  "world_null =
     handleGenerate_jsx demo_engine (Inr (ok_response ''null'')) project_pdf ''1''
       ''aW1hZ2U='' [] False world_pdf"

text \<open>
  The JSX build after generating page 1 from \<open>world_pdf\<close> with an image and the
  service answering \<open>page_payload\<close>.
\<close>

definition world_page1 :: world where
  "world_page1 =
     handleGenerate_jsx demo_engine (Inr (ok_response page_payload)) project_pdf ''1''
       ''aW1hZ2U='' [] False world_pdf"

definition project_page1 :: project where
  "project_page1 = hd (projects world_page1)"


text \<open>
  A service that answers as a function of the request: \<open>page_payload\<close> when the
  request carries an image, HTTP 500 otherwise.
\<close>

definition demo_service :: "payload \<Rightarrow> js_error + response" where
  "demo_service request =
     (if inlineData request = None then Inr error_500 else Inr (ok_response page_payload))"

section \<open>Page separators\<close>



text \<open>The text \<^verbatim>\<open>Page1\n\nPage2\<close>.\<close>

definition two_pages :: string where
  "two_pages = ''Page1'' @ [nl, nl] @ ''Page2''"

section \<open>Scene invariant\<close>

text \<open>
  What holds of every scene of a scene map: it is completed exactly when it has both
  a \<open>prompt\<close> and a \<open>videoUrl\<close> field, and the prompt of a completed cover is not
  \<^verbatim>\<open>null\<close>.
\<close>

definition scene_ok :: "string \<Rightarrow> scene \<Rightarrow> bool" where
  "scene_ok sid s =
     (((status s = Completed) = (prompt s \<noteq> None \<and> videoUrl s \<noteq> None))
      \<and> (if sid = ''cover'' then prompt s \<noteq> Some JNull else True))"

definition scenes_ok :: "(string \<rightharpoonup> scene) \<Rightarrow> bool" where
  "scenes_ok m = (\<forall>sid s. m sid = Some s \<longrightarrow> scene_ok sid s)"

text \<open>
  The invariant in the words of the specification: a scene is completed exactly when
  its prompt and its video are both set and not \<^verbatim>\<open>null\<close>.
\<close>

definition scene_as_specified :: "scene \<Rightarrow> bool" where
  "scene_as_specified s =
     ((status s = Completed) =
      ((prompt s \<noteq> None \<and> prompt s \<noteq> Some JNull) \<and> videoUrl s \<noteq> None))"

section \<open>Navigation gate\<close>

lemma findIndex_from_none:
  "(\<forall>x \<in> set xs. \<not> P x) \<Longrightarrow> findIndex_from P xs k = -1"
  by (induction xs arbitrary: k) auto

lemma findIndex_from_found:
  "findIndex_from P xs k \<noteq> -1 \<Longrightarrow>
   \<exists>n. findIndex_from P xs k = k + int n \<and> n < length xs \<and> P (xs ! n)
       \<and> (\<forall>j<n. \<not> P (xs ! j))"
proof (induction xs arbitrary: k)
  case Nil
  then show ?case by simp
next
  case (Cons x xs)
  show ?case
  proof (cases "P x")
    case True
    then have "findIndex_from P (x # xs) k = k + int 0 \<and> 0 < length (x # xs)
        \<and> P ((x # xs) ! 0) \<and> (\<forall>j<0. \<not> P ((x # xs) ! j))"
      by simp
    then show ?thesis by blast
  next
    case False
    with Cons.prems have "findIndex_from P xs (k + 1) \<noteq> -1" by simp
    from Cons.IH [OF this] obtain n where n:
      "findIndex_from P xs (k + 1) = k + 1 + int n" "n < length xs" "P (xs ! n)"
      "\<forall>j<n. \<not> P (xs ! j)"
      by blast
    have before: "\<forall>j<Suc n. \<not> P ((x # xs) ! j)"
    proof (intro allI impI)
      fix j assume "j < Suc n"
      then show "\<not> P ((x # xs) ! j)"
        using False n(4) by (cases j) auto
    qed
    have "findIndex_from P (x # xs) k = k + int (Suc n) \<and> Suc n < length (x # xs)
        \<and> P ((x # xs) ! Suc n)"
      using False n by simp
    with before show ?thesis by blast
  qed
qed

lemma findIndex_from_nonneg:
  "x \<in> set xs \<Longrightarrow> P x \<Longrightarrow> 0 \<le> k \<Longrightarrow> 0 \<le> findIndex_from P xs k"
proof (induction xs arbitrary: k)
  case Nil
  then show ?case by simp
next
  case (Cons y ys)
  show ?case
  proof (cases "P y")
    case True
    with Cons.prems show ?thesis by simp
  next
    case False
    with Cons.prems have "x \<in> set ys" by auto
    from Cons.IH [of "k + 1"] this Cons.prems(2,3) False
    show ?thesis by simp
  qed
qed

lemma findIndex_minus_one:
  "findIndex P xs = -1 \<longleftrightarrow> (\<forall>x \<in> set xs. \<not> P x)"
proof
  assume h: "findIndex P xs = -1"
  show "\<forall>x \<in> set xs. \<not> P x"
  proof (rule ccontr)
    assume "\<not> (\<forall>x \<in> set xs. \<not> P x)"
    then obtain x where x: "x \<in> set xs" "P x" by blast
    from findIndex_from_nonneg [of x xs P 0] x have "0 \<le> findIndex P xs"
      by (simp add: findIndex_def)
    with h show False by simp
  qed
next
  assume "\<forall>x \<in> set xs. \<not> P x"
  then show "findIndex P xs = -1"
    by (simp add: findIndex_def findIndex_from_none)
qed

lemma findIndex_found:
  assumes "findIndex P xs \<noteq> -1"
  shows "\<exists>n. findIndex P xs = int n \<and> n < length xs \<and> P (xs ! n) \<and> (\<forall>j<n. \<not> P (xs ! j))"
  using findIndex_from_found [of P xs 0] assms by (simp add: findIndex_def)

lemma firstPending_all_completed:
  "(firstPendingSceneIndex p = -1) = (\<forall>sid \<in> set (navItems p). \<not> not_completed p sid)"
  by (simp add: firstPendingSceneIndex_def findIndex_minus_one)

lemma firstPending_found:
  assumes "firstPendingSceneIndex p \<noteq> -1"
  shows "\<exists>n. firstPendingSceneIndex p = int n \<and> n < length (navItems p)
           \<and> not_completed p (navItems p ! n)
           \<and> (\<forall>j<n. \<not> not_completed p (navItems p ! j))"
  using assms unfolding firstPendingSceneIndex_def by (rule findIndex_found)

lemma gate_sequential:
  assumes "i < length (navItems p)"
  shows "(\<not> isDisabled p i) = (\<forall>j<i. \<not> not_completed p (navItems p ! j))"
proof (cases "firstPendingSceneIndex p = -1")
  case True
  then have "\<forall>sid \<in> set (navItems p). \<not> not_completed p sid"
    by (simp add: firstPending_all_completed)
  then have "\<forall>j<i. \<not> not_completed p (navItems p ! j)"
    using assms by simp
  moreover have "\<not> isDisabled p i"
    using True by (simp add: isDisabled_def)
  ultimately show ?thesis by simp
next
  case False
  from firstPending_found [OF this] obtain n where n:
    "firstPendingSceneIndex p = int n" "n < length (navItems p)"
    "not_completed p (navItems p ! n)" "\<forall>j<n. \<not> not_completed p (navItems p ! j)"
    by blast
  have dis: "isDisabled p i = (n < i)"
    using n(1) by (simp add: isDisabled_def)
  show ?thesis
  proof (cases "n < i")
    case True
    with n(3) dis show ?thesis by blast
  next
    case False
    then have "\<forall>j<i. j < n" by simp
    with n(4) have "\<forall>j<i. \<not> not_completed p (navItems p ! j)" by blast
    with dis False show ?thesis by simp
  qed
qed

lemma enabled_up_to_first_pending:
  assumes "firstPendingSceneIndex p = int n"
  shows "{i. i < length (navItems p) \<and> \<not> isDisabled p i} = {i. i < length (navItems p) \<and> i \<le> n}"
  using assms by (simp add: isDisabled_def not_less)

lemma enabled_all:
  assumes "firstPendingSceneIndex p = -1"
  shows "{i. i < length (navItems p) \<and> \<not> isDisabled p i} = {0..<length (navItems p)}"
  using assms by (auto simp add: isDisabled_def)

text \<open>
  C2. In \<^verbatim>\<open>PageNavigation\<close>, the entry at index \<open>i\<close> of the navigation list is
  enabled exactly when every entry at a smaller index is completed. The index
  \<open>firstPendingSceneIndex\<close> is -1 exactly when every entry is completed, and is
  otherwise the index of the first entry that is not completed; the enabled entries
  are then exactly the indices up to and including it, and all of them when it is -1.
\<close>

theorem navigation_gate:
  "(\<forall>i < length (navItems p).
      (\<not> isDisabled p i) = (\<forall>j<i. \<not> not_completed p (navItems p ! j)))
   \<and> ((firstPendingSceneIndex p = -1) = (\<forall>sid \<in> set (navItems p). \<not> not_completed p sid))
   \<and> (firstPendingSceneIndex p \<noteq> -1 \<longrightarrow>
        (\<exists>n. firstPendingSceneIndex p = int n \<and> n < length (navItems p)
           \<and> not_completed p (navItems p ! n)
           \<and> (\<forall>j<n. \<not> not_completed p (navItems p ! j))
           \<and> {i. i < length (navItems p) \<and> \<not> isDisabled p i} = {0..n}))
   \<and> (firstPendingSceneIndex p = -1 \<longrightarrow>
        {i. i < length (navItems p) \<and> \<not> isDisabled p i} = {0..<length (navItems p)})"
proof (intro conjI allI impI)
  fix i assume "i < length (navItems p)"
  then show "(\<not> isDisabled p i) = (\<forall>j<i. \<not> not_completed p (navItems p ! j))"
    by (rule gate_sequential)
next
  show "(firstPendingSceneIndex p = -1) = (\<forall>sid \<in> set (navItems p). \<not> not_completed p sid)"
    by (rule firstPending_all_completed)
next
  assume "firstPendingSceneIndex p \<noteq> -1"
  from firstPending_found [OF this] obtain n where n:
    "firstPendingSceneIndex p = int n" "n < length (navItems p)"
    "not_completed p (navItems p ! n)" "\<forall>j<n. \<not> not_completed p (navItems p ! j)"
    by blast
  have "{i. i < length (navItems p) \<and> i \<le> n} = {0..n}"
    using n(2) by auto
  with enabled_up_to_first_pending [OF n(1)]
  have "{i. i < length (navItems p) \<and> \<not> isDisabled p i} = {0..n}"
    by simp
  with n show "\<exists>n. firstPendingSceneIndex p = int n \<and> n < length (navItems p)
           \<and> not_completed p (navItems p ! n)
           \<and> (\<forall>j<n. \<not> not_completed p (navItems p ! j))
           \<and> {i. i < length (navItems p) \<and> \<not> isDisabled p i} = {0..n}"
    by blast
next
  assume "firstPendingSceneIndex p = -1"
  then show "{i. i < length (navItems p) \<and> \<not> isDisabled p i} = {0..<length (navItems p)}"
    by (rule enabled_all)
qed

theorem navigation_gate_witness:
  "(1::nat) < length (navItems project_pdf)
   \<and> firstPendingSceneIndex project_pdf \<noteq> -1
   \<and> firstPendingSceneIndex project_pdf = 1
   \<and> \<not> isDisabled project_pdf 1
   \<and> \<not> not_completed project_pdf (navItems project_pdf ! 0)
   \<and> {i. i < length (navItems project_pdf) \<and> \<not> isDisabled project_pdf i} = {0..1}"
proof -
  have fp: "firstPendingSceneIndex project_pdf = 1"
    by code_simp
  have len: "(1::nat) < length (navItems project_pdf)"
    by code_simp
  have c0: "\<not> not_completed project_pdf (navItems project_pdf ! 0)"
    by code_simp
  have en: "\<not> isDisabled project_pdf 1"
    using fp by (simp add: isDisabled_def)
  from navigation_gate [of project_pdf, THEN conjunct2, THEN conjunct2, THEN conjunct1] fp
  obtain n where n: "firstPendingSceneIndex project_pdf = int n"
      "{i. i < length (navItems project_pdf) \<and> \<not> isDisabled project_pdf i} = {0..n}"
    by auto
  from n(1) fp have "n = 1" by simp
  with n(2) fp len c0 en show ?thesis by simp
qed

section \<open>Generation client: results\<close>

lemma generateScene_snd:
  "snd (generateScene eng fetched p sid img fb w) =
     w\<lparr> requests := requests w @
       [\<lparr> text_part = buildApiPromptText p sid fb,
          inlineData = (if img \<noteq> [] then Some img else None) \<rparr>] \<rparr>"
  by (simp add: generateScene_def payload_of_def Let_def
        split: sum.splits option.splits list.splits)

lemma generateScene_http_error:
  "fetched = Inr r \<Longrightarrow> \<not> ok r \<Longrightarrow> body_text r = Inr body \<Longrightarrow>
   fst (generateScene eng fetched p sid img fb w) =
     Inl (Error (''API Error: '' @ String_nat (resp_status r) @ '' '' @ statusText r
                 @ '' - '' @ body))"
  by (simp add: generateScene_def Let_def)



text \<open>
  The remaining branches: a first candidate without \<^verbatim>\<open>content\<close>, \<^verbatim>\<open>parts\<close> or a
  first part makes the property chain throw the engine's error, and a body that is
  \<^verbatim>\<open>null\<close> makes the read of \<^verbatim>\<open>candidates\<close> throw it.
\<close>

lemma generateScene_no_text:
  "fetched = Inr r \<Longrightarrow> ok r \<Longrightarrow> body_json r = Inr (Some res) \<Longrightarrow>
   candidates res = Some (c # cs) \<Longrightarrow> first_text eng c = Inl err \<Longrightarrow>
   fst (generateScene eng fetched p sid img fb w) = Inl err"
  by (simp add: generateScene_def Let_def)

lemma first_text_no_content:
  "content c = None \<Longrightarrow> first_text eng c = Inl (null_read eng ''parts'')"
  by (simp add: first_text_def)

lemma generateScene_null_body:
  "fetched = Inr r \<Longrightarrow> ok r \<Longrightarrow> body_json r = Inr None \<Longrightarrow>
   fst (generateScene eng fetched p sid img fb w) = Inl (null_read eng ''candidates'')"
  by (simp add: generateScene_def Let_def)



section \<open>Scene generation: results\<close>

lemma spread_scenes_only:
  "spread p (no_update\<lparr> u_scenes := Some S \<rparr>) = p\<lparr> scenes := S \<rparr>"
  by (simp add: spread_def no_update_def)

lemma spread_scenes_name_author:
  "spread p (no_update\<lparr> u_scenes := Some S, u_name := Some t, u_author := Some a \<rparr>)
     = p\<lparr> scenes := S, name := t, author := a \<rparr>"
  by (simp add: spread_def no_update_def)

lemma handleGenerate_jsx_guard:
  "sceneId \<noteq> ''end'' \<Longrightarrow>
   handleGenerate_jsx eng fetched project sceneId [] fb False w =
     w\<lparr> error := ''Please upload an illustration for this page.'' \<rparr>"
  by (simp add: handleGenerate_jsx_def setError_def)

lemma handleGenerate_jsx_failed:
  assumes "img \<noteq> [] \<or> sceneId = ''end'' \<or> isReg"
    and "fst (generateScene eng fetched project sceneId img fb (setError [] w)) = Inl err"
  shows "handleGenerate_jsx eng fetched project sceneId img fb isReg w =
     setError (''Operation failed: '' @ message err @ ''.'')
       (snd (generateScene eng fetched project sceneId img fb (setError [] w)))"
proof (cases "generateScene eng fetched project sceneId img fb (setError [] w)")
  case (Pair a b)
  with assms show ?thesis
    by (auto simp add: handleGenerate_jsx_def)
qed

lemma handleGenerate_jsx_page:
  assumes "img \<noteq> [] \<or> sceneId = ''end'' \<or> isReg"
    and "fst (generateScene eng fetched project sceneId img fb (setError [] w)) = Inr np"
    and "sceneId \<noteq> ''cover''"
  shows "handleGenerate_jsx eng fetched project sceneId img fb isReg w =
     updateProject (project_id project)
       (no_update\<lparr> u_scenes := Some ((scenes project)
          (sceneId \<mapsto> completed_over (scenes project sceneId) np (generateVideoFromPrompt np))) \<rparr>)
       (snd (generateScene eng fetched project sceneId img fb (setError [] w)))"
proof (cases "generateScene eng fetched project sceneId img fb (setError [] w)")
  case (Pair a b)
  with assms show ?thesis
    by (auto simp add: handleGenerate_jsx_def Let_def)
qed

lemma handleGenerate_jsx_cover_null:
  assumes "img \<noteq> [] \<or> isReg"
    and "fst (generateScene eng fetched project ''cover'' img fb (setError [] w)) = Inr JNull"
  shows "handleGenerate_jsx eng fetched project ''cover'' img fb isReg w =
     setError (''Operation failed: '' @ message (null_read eng ''extracted_title'') @ ''.'')
       (snd (generateScene eng fetched project ''cover'' img fb (setError [] w)))"
proof (cases "generateScene eng fetched project ''cover'' img fb (setError [] w)")
  case (Pair a b)
  with assms show ?thesis
    by (auto simp add: handleGenerate_jsx_def Let_def get_prop_def)
qed

lemma handleGenerate_jsx_cover_title:
  assumes "img \<noteq> [] \<or> isReg"
    and "fst (generateScene eng fetched project ''cover'' img fb (setError [] w)) = Inr np"
    and "np \<noteq> JNull" and "own_prop np ''extracted_title'' = Some t" and "truthy t"
  shows "handleGenerate_jsx eng fetched project ''cover'' img fb isReg w =
     updateProject (project_id project)
       (no_update\<lparr> u_scenes := Some ((scenes project)
          (''cover'' \<mapsto> completed_over (scenes project ''cover'') np (generateVideoFromPrompt np))),
          u_name := Some t,
          u_author := Some (or_else (own_prop np ''extracted_author'') (JStr ''Unknown Author'')) \<rparr>)
       (snd (generateScene eng fetched project ''cover'' img fb (setError [] w)))"
proof (cases "generateScene eng fetched project ''cover'' img fb (setError [] w)")
  case (Pair a b)
  with assms show ?thesis
    by (auto simp add: handleGenerate_jsx_def Let_def get_prop_def)
qed

lemma handleGenerate_jsx_cover_no_title:
  assumes "img \<noteq> [] \<or> isReg"
    and "fst (generateScene eng fetched project ''cover'' img fb (setError [] w)) = Inr np"
    and "np \<noteq> JNull" and "\<not> truthy_opt (own_prop np ''extracted_title'')"
  shows "handleGenerate_jsx eng fetched project ''cover'' img fb isReg w =
     updateProject (project_id project)
       (no_update\<lparr> u_scenes := Some ((scenes project)
          (''cover'' \<mapsto> completed_over (scenes project ''cover'') np (generateVideoFromPrompt np))) \<rparr>)
       (snd (generateScene eng fetched project ''cover'' img fb (setError [] w)))"
proof (cases "generateScene eng fetched project ''cover'' img fb (setError [] w)")
  case (Pair a b)
  with assms show ?thesis
    by (auto simp add: handleGenerate_jsx_def Let_def get_prop_def)
qed

lemma projects_updateProject:
  "projects (updateProject i u w) = map (\<lambda>p. if project_id p = i then spread p u else p) (projects w)"
  by (simp add: updateProject_def)

lemma updateProject_other:
  "error (updateProject i u w) = error w \<and> requests (updateProject i u w) = requests w
   \<and> currentSceneId (updateProject i u w) = currentSceneId w"
  by (simp add: updateProject_def)

lemma setError_fields:
  "projects (setError m w) = projects w \<and> error (setError m w) = m
   \<and> requests (setError m w) = requests w \<and> currentSceneId (setError m w) = currentSceneId w"
  by (simp add: setError_def)

text \<open>
  C5. In the JSX build, \<^verbatim>\<open>handleGenerate\<close> on a scene other than \<^verbatim>\<open>end\<close>, with no
  image and outside regeneration, only shows the message asking for an illustration:
  the projects are as before, and no request is sent, whatever the service would
  have answered. Inside regeneration, which \<^verbatim>\<open>SceneGenerator\<close> offers exactly for a
  completed scene of an ingested project, the same call without an image sends its
  request, never shows that message, and replaces the scene when the service
  answers with a prompt.
\<close>

theorem missing_illustration:
  "(sceneId \<noteq> ''end'' \<longrightarrow>
      handleGenerate_jsx eng fetched project sceneId [] fb False w =
        w\<lparr> error := ''Please upload an illustration for this page.'' \<rparr>)
   \<and> requests (handleGenerate_jsx eng fetched project sceneId [] fb True w) =
       requests w @ [\<lparr> text_part = buildApiPromptText project sceneId fb, inlineData = None \<rparr>]
   \<and> error (handleGenerate_jsx eng fetched project sceneId [] fb True w) \<noteq>
       ''Please upload an illustration for this page.''
   \<and> (\<forall>np. fst (generateScene eng fetched project sceneId [] fb (setError [] w)) = Inr np
          \<and> sceneId \<noteq> ''cover'' \<longrightarrow>
        projects (handleGenerate_jsx eng fetched project sceneId [] fb True w) =
          map (\<lambda>p. if project_id p = project_id project
                    then p\<lparr> scenes := (scenes project)
                           (sceneId \<mapsto> completed_over (scenes project sceneId) np
                                          (generateVideoFromPrompt np)) \<rparr>
                    else p) (projects w))
   \<and> ((SceneGenerator project sceneId = CompletedSceneViewer) =
        (storyText project \<noteq> [] \<and> \<not> not_completed project sceneId))"
proof (intro conjI allI impI)
  assume "sceneId \<noteq> ''end''"
  then show "handleGenerate_jsx eng fetched project sceneId [] fb False w =
        w\<lparr> error := ''Please upload an illustration for this page.'' \<rparr>"
    by (rule handleGenerate_jsx_guard)
next
  let ?g = "generateScene eng fetched project sceneId [] fb (setError [] w)"
  let ?h = "handleGenerate_jsx eng fetched project sceneId [] fb True w"
  have req: "requests (snd ?g) =
       requests w @ [\<lparr> text_part = buildApiPromptText project sceneId fb, inlineData = None \<rparr>]"
    by (simp add: generateScene_snd setError_def)
  have err0: "error (snd ?g) = []"
    by (simp add: generateScene_snd setError_def)
  have both: "requests ?h = requests (snd ?g) \<and>
      error ?h \<noteq> ''Please upload an illustration for this page.''"
  proof (cases "fst ?g")
    case (Inl err)
    then have "?h = setError (''Operation failed: '' @ message err @ ''.'') (snd ?g)"
      by (intro handleGenerate_jsx_failed) simp_all
    then show ?thesis by (simp add: setError_def)
  next
    case (Inr np)
    show ?thesis
    proof (cases "sceneId = ''cover''")
      case False
      with Inr have "?h = updateProject (project_id project)
         (no_update\<lparr> u_scenes := Some ((scenes project)
            (sceneId \<mapsto> completed_over (scenes project sceneId) np (generateVideoFromPrompt np))) \<rparr>)
         (snd ?g)"
        by (intro handleGenerate_jsx_page) simp_all
      with err0 show ?thesis by (simp add: updateProject_other)
    next
      case True
      note cover = True
      show ?thesis
      proof (cases "np = JNull")
        case True
        with Inr cover have "?h = setError (''Operation failed: ''
            @ message (null_read eng ''extracted_title'') @ ''.'') (snd ?g)"
          using handleGenerate_jsx_cover_null [of "[]" True eng fetched project fb w] by simp
        then show ?thesis by (simp add: setError_def)
      next
        case False
        show ?thesis
        proof (cases "truthy_opt (own_prop np ''extracted_title'')")
          case True
          then obtain t where t: "own_prop np ''extracted_title'' = Some t" "truthy t"
            by (cases "own_prop np ''extracted_title''") auto
          from handleGenerate_jsx_cover_title [of "[]" True eng fetched project fb w np t]
            Inr cover False t err0
          show ?thesis by (simp add: updateProject_other)
        next
          case no_title: False
          from handleGenerate_jsx_cover_no_title [of "[]" True eng fetched project fb w np]
            Inr cover False no_title err0
          show ?thesis by (simp add: updateProject_other)
        qed
      qed
    qed
  qed
  from both req show "requests ?h =
       requests w @ [\<lparr> text_part = buildApiPromptText project sceneId fb, inlineData = None \<rparr>]"
    by simp
  from both show "error ?h \<noteq> ''Please upload an illustration for this page.''"
    by simp
next
  fix np
  assume h: "fst (generateScene eng fetched project sceneId [] fb (setError [] w)) = Inr np
          \<and> sceneId \<noteq> ''cover''"
  then have "handleGenerate_jsx eng fetched project sceneId [] fb True w =
     updateProject (project_id project)
       (no_update\<lparr> u_scenes := Some ((scenes project)
          (sceneId \<mapsto> completed_over (scenes project sceneId) np (generateVideoFromPrompt np))) \<rparr>)
       (snd (generateScene eng fetched project sceneId [] fb (setError [] w)))"
    by (intro handleGenerate_jsx_page) simp_all
  then show "projects (handleGenerate_jsx eng fetched project sceneId [] fb True w) =
          map (\<lambda>p. if project_id p = project_id project
                    then p\<lparr> scenes := (scenes project)
                           (sceneId \<mapsto> completed_over (scenes project sceneId) np
                                          (generateVideoFromPrompt np)) \<rparr>
                    else p) (projects w)"
    by (simp add: projects_updateProject spread_scenes_only generateScene_snd setError_def)
next
  show "(SceneGenerator project sceneId = CompletedSceneViewer) =
        (storyText project \<noteq> [] \<and> \<not> not_completed project sceneId)"
    by (simp add: SceneGenerator_def not_completed_def split: option.splits)
qed

theorem missing_illustration_witness:
  "''1'' \<noteq> ''end''
   \<and> handleGenerate_jsx demo_engine (Inr (ok_response page_payload)) project_pdf ''1'' [] [] False
       world_pdf = world_pdf\<lparr> error := ''Please upload an illustration for this page.'' \<rparr>
   \<and> fst (generateScene demo_engine (Inr (ok_response page_payload)) project_page1 ''1'' []
            ''Bigger smile'' (setError [] world_page1))
       = Inr (JObj [(''scene_summary'', JStr ''A fox runs'')])
   \<and> ''1'' \<noteq> ''cover''
   \<and> projects (handleGenerate_jsx demo_engine (Inr (ok_response page_payload)) project_page1 ''1''
                 [] ''Bigger smile'' True world_page1) =
       map (\<lambda>p. if project_id p = project_id project_page1
                 then p\<lparr> scenes := (scenes project_page1)
                        (''1'' \<mapsto> completed_over (scenes project_page1 ''1'')
                                   (JObj [(''scene_summary'', JStr ''A fox runs'')])
                                   (generateVideoFromPrompt
                                      (JObj [(''scene_summary'', JStr ''A fox runs'')]))) \<rparr>
                 else p) (projects world_page1)
   \<and> SceneGenerator project_page1 ''1'' = CompletedSceneViewer
   \<and> storyText project_page1 \<noteq> []
   \<and> \<not> not_completed project_page1 ''1''"
proof -
  have ne: "''1'' \<noteq> ''end''" "''1'' \<noteq> ''cover''"
    by simp_all
  have g: "fst (generateScene demo_engine (Inr (ok_response page_payload)) project_page1 ''1'' []
            ''Bigger smile'' (setError [] world_page1))
       = Inr (JObj [(''scene_summary'', JStr ''A fox runs'')])"
    by (simp add: generateScene_def Let_def ok_response_def first_text_def demo_engine_def
          demo_JSON_parse_def page_payload_def cover_payload_def)
  have v: "storyText project_page1 \<noteq> []" "\<not> not_completed project_page1 ''1''"
    by code_simp+
  note m1 = missing_illustration [of "''1''" demo_engine "Inr (ok_response page_payload)"
      project_pdf "[]" world_pdf]
  note m2 = missing_illustration [of "''1''" demo_engine "Inr (ok_response page_payload)"
      project_page1 "''Bigger smile''" world_page1]
  from m1 ne have a: "handleGenerate_jsx demo_engine (Inr (ok_response page_payload)) project_pdf
       ''1'' [] [] False world_pdf
       = world_pdf\<lparr> error := ''Please upload an illustration for this page.'' \<rparr>"
    by blast
  from m2 [THEN conjunct2, THEN conjunct2, THEN conjunct2, THEN conjunct1, rule_format,
      of "JObj [(''scene_summary'', JStr ''A fox runs'')]"] g ne
  have b: "projects (handleGenerate_jsx demo_engine (Inr (ok_response page_payload)) project_page1
                 ''1'' [] ''Bigger smile'' True world_page1) =
       map (\<lambda>p. if project_id p = project_id project_page1
                 then p\<lparr> scenes := (scenes project_page1)
                        (''1'' \<mapsto> completed_over (scenes project_page1 ''1'')
                                   (JObj [(''scene_summary'', JStr ''A fox runs'')])
                                   (generateVideoFromPrompt
                                      (JObj [(''scene_summary'', JStr ''A fox runs'')]))) \<rparr>
                 else p) (projects world_page1)"
    by blast
  from m2 [THEN conjunct2, THEN conjunct2, THEN conjunct2, THEN conjunct2] v
  have c: "SceneGenerator project_page1 ''1'' = CompletedSceneViewer"
    by blast
  from ne a g b c v show ?thesis by blast
qed

text \<open>
  C3. In the JSX build, once \<^verbatim>\<open>handleGenerate\<close> has passed its illustration check:
  when \<^verbatim>\<open>generateScene\<close> throws, or the title of a \<^verbatim>\<open>null\<close> cover prompt is read, the
  projects are exactly as before and the error message is shown as
  \<^verbatim>\<open>Operation failed: message.\<close>; for a response that is not ok the message is the
  \<^verbatim>\<open>API Error\<close> with its status and body. Every attempt ends in one of two ways:
  the projects are unchanged and an error is shown, or no error is shown and the
  state is the result of one \<^verbatim>\<open>updateProject\<close> whose scene map sets the status, the
  prompt and the video of the scene together.
\<close>

theorem failed_generation_keeps_project:
  assumes started: "img \<noteq> [] \<or> sceneId = ''end'' \<or> isReg"
  shows
  "(\<forall>err. fst (generateScene eng fetched project sceneId img fb (setError [] w)) = Inl err \<longrightarrow>
      projects (handleGenerate_jsx eng fetched project sceneId img fb isReg w) = projects w
      \<and> error (handleGenerate_jsx eng fetched project sceneId img fb isReg w) =
          ''Operation failed: '' @ message err @ ''.'')
   \<and> (sceneId = ''cover''
        \<and> fst (generateScene eng fetched project sceneId img fb (setError [] w)) = Inr JNull \<longrightarrow>
      projects (handleGenerate_jsx eng fetched project sceneId img fb isReg w) = projects w
      \<and> error (handleGenerate_jsx eng fetched project sceneId img fb isReg w) =
          ''Operation failed: '' @ message (null_read eng ''extracted_title'') @ ''.'')
   \<and> (\<forall>r body. fetched = Inr r \<and> \<not> ok r \<and> body_text r = Inr body \<longrightarrow>
      projects (handleGenerate_jsx eng fetched project sceneId img fb isReg w) = projects w
      \<and> error (handleGenerate_jsx eng fetched project sceneId img fb isReg w) =
          ''Operation failed: API Error: '' @ String_nat (resp_status r) @ '' '' @ statusText r
          @ '' - '' @ body @ ''.'')
   \<and> ((projects (handleGenerate_jsx eng fetched project sceneId img fb isReg w) = projects w
         \<and> error (handleGenerate_jsx eng fetched project sceneId img fb isReg w) \<noteq> [])
        \<or> (error (handleGenerate_jsx eng fetched project sceneId img fb isReg w) = []
            \<and> (\<exists>np u. fst (generateScene eng fetched project sceneId img fb (setError [] w)) = Inr np
                  \<and> u_scenes u = Some ((scenes project)
                       (sceneId \<mapsto> completed_over (scenes project sceneId) np
                                      (generateVideoFromPrompt np)))
                  \<and> handleGenerate_jsx eng fetched project sceneId img fb isReg w =
                      updateProject (project_id project) u
                        (snd (generateScene eng fetched project sceneId img fb (setError [] w))))))"
proof -
  let ?g = "generateScene eng fetched project sceneId img fb (setError [] w)"
  let ?h = "handleGenerate_jsx eng fetched project sceneId img fb isReg w"
  have pg: "projects (snd ?g) = projects w" and eg: "error (snd ?g) = []"
    by (simp_all add: generateScene_snd setError_def)
  have failed: "projects ?h = projects w \<and> error ?h = ''Operation failed: '' @ message err @ ''.''"
    if "fst ?g = Inl err" for err
  proof -
    from started that have "?h = setError (''Operation failed: '' @ message err @ ''.'') (snd ?g)"
      by (rule handleGenerate_jsx_failed)
    with pg show ?thesis by (simp add: setError_def)
  qed
  have null_cover: "projects ?h = projects w
      \<and> error ?h = ''Operation failed: '' @ message (null_read eng ''extracted_title'') @ ''.''"
    if "sceneId = ''cover''" "fst ?g = Inr JNull"
  proof -
    from started that have "?h = setError (''Operation failed: ''
        @ message (null_read eng ''extracted_title'') @ ''.'') (snd ?g)"
      using handleGenerate_jsx_cover_null [of img isReg eng fetched project fb w] by simp
    with pg show ?thesis by (simp add: setError_def)
  qed
  have http: "projects ?h = projects w
      \<and> error ?h = ''Operation failed: API Error: '' @ String_nat (resp_status r) @ '' ''
          @ statusText r @ '' - '' @ body @ ''.''"
    if "fetched = Inr r" "\<not> ok r" "body_text r = Inr body" for r body
  proof -
    from that have "fst ?g = Inl (Error (''API Error: '' @ String_nat (resp_status r) @ '' ''
        @ statusText r @ '' - '' @ body))"
      by (rule generateScene_http_error)
    from failed [OF this] show ?thesis by simp
  qed
  have two_ways: "(projects ?h = projects w \<and> error ?h \<noteq> [])
        \<or> (error ?h = []
            \<and> (\<exists>np u. fst ?g = Inr np
                  \<and> u_scenes u = Some ((scenes project)
                       (sceneId \<mapsto> completed_over (scenes project sceneId) np
                                      (generateVideoFromPrompt np)))
                  \<and> ?h = updateProject (project_id project) u (snd ?g)))"
  proof (cases "fst ?g")
    case (Inl err)
    from failed [OF this] show ?thesis by simp
  next
    case (Inr np)
    let ?S = "(scenes project)
        (sceneId \<mapsto> completed_over (scenes project sceneId) np (generateVideoFromPrompt np))"
    have ok_with: "error ?h = [] \<and> (\<exists>np u. fst ?g = Inr np \<and> u_scenes u = Some ((scenes project)
                       (sceneId \<mapsto> completed_over (scenes project sceneId) np
                                      (generateVideoFromPrompt np)))
                  \<and> ?h = updateProject (project_id project) u (snd ?g))"
      if "?h = updateProject (project_id project) u (snd ?g)" "u_scenes u = Some ?S" for u
      using that Inr eg by (auto simp add: updateProject_other)
    show ?thesis
    proof (cases "sceneId = ''cover''")
      case False
      from handleGenerate_jsx_page [OF started Inr False]
      have "?h = updateProject (project_id project) (no_update\<lparr> u_scenes := Some ?S \<rparr>) (snd ?g)" .
      from ok_with [OF this] show ?thesis by simp
    next
      case cover: True
      with started have st: "img \<noteq> [] \<or> isReg" by auto
      show ?thesis
      proof (cases "np = JNull")
        case True
        with null_cover cover Inr show ?thesis by simp
      next
        case False
        show ?thesis
        proof (cases "truthy_opt (own_prop np ''extracted_title'')")
          case True
          then obtain t where t: "own_prop np ''extracted_title'' = Some t" "truthy t"
            by (cases "own_prop np ''extracted_title''") auto
          from handleGenerate_jsx_cover_title [of img isReg eng fetched project fb w np t]
            st Inr cover False t
          have "?h = updateProject (project_id project)
              (no_update\<lparr> u_scenes := Some ?S, u_name := Some t,
                 u_author := Some (or_else (own_prop np ''extracted_author'')
                                     (JStr ''Unknown Author'')) \<rparr>) (snd ?g)"
            by simp
          from ok_with [OF this] show ?thesis by simp
        next
          case no_title: False
          from handleGenerate_jsx_cover_no_title [of img isReg eng fetched project fb w np]
            st Inr cover False no_title
          have "?h = updateProject (project_id project)
              (no_update\<lparr> u_scenes := Some ?S \<rparr>) (snd ?g)"
            by simp
          from ok_with [OF this] show ?thesis by simp
        qed
      qed
    qed
  qed
  from failed null_cover http two_ways show ?thesis by blast
qed

theorem failed_generation_keeps_project_witness:
  "\<not> ok error_500 \<and> body_text error_500 = Inr ''overloaded''
   \<and> projects (handleGenerate_jsx demo_engine (Inr error_500) project_pdf ''1'' ''aW1hZ2U='' []
                 False world_pdf) = projects world_pdf
   \<and> error (handleGenerate_jsx demo_engine (Inr error_500) project_pdf ''1'' ''aW1hZ2U='' []
                 False world_pdf)
       = ''Operation failed: API Error: 500 Internal Server Error - overloaded.''
   \<and> projects (handleGenerate_jsx demo_engine (Inr error_500) project_page1 ''1'' []
                 ''Bigger smile'' True world_page1) = projects world_page1
   \<and> fst (generateScene demo_engine (Inr (ok_response ''null'')) project_pdf ''cover''
            [] [] (setError [] world_pdf)) = Inr JNull
   \<and> projects (handleGenerate_jsx demo_engine (Inr (ok_response ''null'')) project_pdf ''cover''
                 [] [] True world_pdf) = projects world_pdf"
proof -
  have s500: "String_nat 500 = ''500''" by code_simp
  have a: "\<not> ok error_500" "body_text error_500 = Inr ''overloaded''"
      "resp_status error_500 = 500" "statusText error_500 = ''Internal Server Error''"
    by (simp_all add: error_500_def)
  have g: "fst (generateScene demo_engine (Inr (ok_response ''null'')) project_pdf ''cover''
            [] [] (setError [] world_pdf)) = Inr JNull"
    by (simp add: generateScene_def Let_def ok_response_def first_text_def demo_engine_def
          demo_JSON_parse_def)
  note f1 = failed_generation_keeps_project [of "''aW1hZ2U=''" "''1''" False demo_engine
      "Inr error_500" project_pdf "[]" world_pdf]
  note f2 = failed_generation_keeps_project [of "[]" "''1''" True demo_engine
      "Inr error_500" project_page1 "''Bigger smile''" world_page1]
  note f3 = failed_generation_keeps_project [of "[]" "''cover''" True demo_engine
      "Inr (ok_response ''null'')" project_pdf "[]" world_pdf]
  from f1 [THEN conjunct2, THEN conjunct2, THEN conjunct1, rule_format, of error_500 "''overloaded''"]
    a s500
  have r1: "projects (handleGenerate_jsx demo_engine (Inr error_500) project_pdf ''1''
          ''aW1hZ2U='' [] False world_pdf) = projects world_pdf
      \<and> error (handleGenerate_jsx demo_engine (Inr error_500) project_pdf ''1'' ''aW1hZ2U='' []
                 False world_pdf)
       = ''Operation failed: API Error: 500 Internal Server Error - overloaded.''"
    by simp
  from f2 [THEN conjunct2, THEN conjunct2, THEN conjunct1, rule_format, of error_500 "''overloaded''"]
    a
  have r2: "projects (handleGenerate_jsx demo_engine (Inr error_500) project_page1 ''1'' []
                 ''Bigger smile'' True world_page1) = projects world_page1"
    by simp
  from f3 [THEN conjunct2, THEN conjunct1] g
  have r3: "projects (handleGenerate_jsx demo_engine (Inr (ok_response ''null'')) project_pdf
                 ''cover'' [] [] True world_pdf) = projects world_pdf"
    by simp
  from a r1 r2 g r3 show ?thesis by simp
qed




section \<open>What a generation changes in the projects\<close>

lemma handleGenerate_jsx_projects:
  "projects (handleGenerate_jsx eng fetched project sceneId img fb isReg w) = projects w
   \<or> (\<exists>np. projects (handleGenerate_jsx eng fetched project sceneId img fb isReg w) =
          map (\<lambda>q. if project_id q = project_id project
                    then q\<lparr> scenes := (scenes project)
                           (sceneId \<mapsto> completed_over (scenes project sceneId) np
                                          (generateVideoFromPrompt np)) \<rparr>
                    else q) (projects w)
          \<and> (sceneId = ''cover'' \<longrightarrow> np \<noteq> JNull))
   \<or> (\<exists>np t a. projects (handleGenerate_jsx eng fetched project sceneId img fb isReg w) =
          map (\<lambda>q. if project_id q = project_id project
                    then q\<lparr> scenes := (scenes project)
                           (sceneId \<mapsto> completed_over (scenes project sceneId) np
                                          (generateVideoFromPrompt np)),
                           name := t, author := a \<rparr>
                    else q) (projects w)
          \<and> np \<noteq> JNull)"
proof (cases "img \<noteq> [] \<or> sceneId = ''end'' \<or> isReg")
  case False
  then have "handleGenerate_jsx eng fetched project sceneId img fb isReg w =
      w\<lparr> error := ''Please upload an illustration for this page.'' \<rparr>"
    using handleGenerate_jsx_guard [of sceneId eng fetched project fb w] by simp
  then show ?thesis by simp
next
  case started: True
  let ?g = "generateScene eng fetched project sceneId img fb (setError [] w)"
  let ?h = "handleGenerate_jsx eng fetched project sceneId img fb isReg w"
  have pg: "projects (snd ?g) = projects w"
    by (simp add: generateScene_snd setError_def)
  show ?thesis
  proof (cases "fst ?g")
    case (Inl err)
    from handleGenerate_jsx_failed [OF started Inl] pg show ?thesis
      by (simp add: setError_def)
  next
    case (Inr np)
    show ?thesis
    proof (cases "sceneId = ''cover''")
      case False
      from handleGenerate_jsx_page [OF started Inr False] pg False
      have "projects ?h = map (\<lambda>q. if project_id q = project_id project
                    then q\<lparr> scenes := (scenes project)
                           (sceneId \<mapsto> completed_over (scenes project sceneId) np
                                          (generateVideoFromPrompt np)) \<rparr>
                    else q) (projects w) \<and> (sceneId = ''cover'' \<longrightarrow> np \<noteq> JNull)"
        by (simp add: projects_updateProject spread_scenes_only)
      then show ?thesis by blast
    next
      case cover: True
      with started have st: "img \<noteq> [] \<or> isReg" by auto
      show ?thesis
      proof (cases "np = JNull")
        case True
        from handleGenerate_jsx_cover_null [of img isReg eng fetched project fb w] st Inr cover True pg
        show ?thesis by (simp add: setError_def)
      next
        case False
        show ?thesis
        proof (cases "truthy_opt (own_prop np ''extracted_title'')")
          case True
          then obtain t where t: "own_prop np ''extracted_title'' = Some t" "truthy t"
            by (cases "own_prop np ''extracted_title''") auto
          from handleGenerate_jsx_cover_title [of img isReg eng fetched project fb w np t]
            st Inr cover False t pg
          have "projects ?h = map (\<lambda>q. if project_id q = project_id project
                    then q\<lparr> scenes := (scenes project)
                           (sceneId \<mapsto> completed_over (scenes project sceneId) np
                                          (generateVideoFromPrompt np)),
                           name := t,
                           author := or_else (own_prop np ''extracted_author'')
                                       (JStr ''Unknown Author'') \<rparr>
                    else q) (projects w) \<and> np \<noteq> JNull"
            by (simp add: projects_updateProject spread_scenes_name_author)
          then show ?thesis by blast
        next
          case no_title: False
          from handleGenerate_jsx_cover_no_title [of img isReg eng fetched project fb w np]
            st Inr cover False no_title pg
          have "projects ?h = map (\<lambda>q. if project_id q = project_id project
                    then q\<lparr> scenes := (scenes project)
                           (sceneId \<mapsto> completed_over (scenes project sceneId) np
                                          (generateVideoFromPrompt np)) \<rparr>
                    else q) (projects w) \<and> (sceneId = ''cover'' \<longrightarrow> np \<noteq> JNull)"
            by (simp add: projects_updateProject spread_scenes_only)
          then show ?thesis by blast
        qed
      qed
    qed
  qed
qed

lemma buildApiPromptText_cong:
  assumes "storyText p = storyText p'"
    and "Option.bind (scenes p sid) scene_text = Option.bind (scenes p' sid) scene_text"
  shows "buildApiPromptText p sid fb = buildApiPromptText p' sid fb"
proof -
  have "(case scenes p sid of None \<Rightarrow> [] | Some s \<Rightarrow> (case scene_text s of None \<Rightarrow> [] | Some t \<Rightarrow> t))
      = (case scenes p' sid of None \<Rightarrow> [] | Some s \<Rightarrow> (case scene_text s of None \<Rightarrow> [] | Some t \<Rightarrow> t))"
    using assms(2) by (auto split: option.splits)
  with assms(1) show ?thesis
    by (simp add: buildApiPromptText_def)
qed

lemma generateScene_fst_answer:
  "fst (generateScene eng fetched p sid img fb w) = fst (generateScene eng fetched p' sid img fb w')"
  by (simp add: generateScene_def Let_def split: sum.splits option.splits list.splits)

lemma after_generate_same_text:
  assumes cur: "\<forall>q \<in> set (projects w). project_id q = project_id p \<longrightarrow> q = p"
    and p1: "p1 \<in> set (projects (handleGenerate_jsx eng fetched p sid img fb isReg w))"
    and same: "project_id p1 = project_id p"
  shows "storyText p1 = storyText p
     \<and> Option.bind (scenes p1 sid) scene_text = Option.bind (scenes p sid) scene_text"
proof -
  let ?h = "handleGenerate_jsx eng fetched p sid img fb isReg w"
  have text_kept: "Option.bind (((scenes p)(sid \<mapsto> completed_over (scenes p sid) np url)) sid)
      scene_text = Option.bind (scenes p sid) scene_text" for np url
    by (cases "scenes p sid") (simp_all add: completed_over_def)
  from handleGenerate_jsx_projects [of eng fetched p sid img fb isReg w]
  consider (same) "projects ?h = projects w"
    | (scenes_only) np where "projects ?h = map (\<lambda>q. if project_id q = project_id p
          then q\<lparr> scenes := (scenes p)(sid \<mapsto> completed_over (scenes p sid) np
                                                (generateVideoFromPrompt np)) \<rparr>
          else q) (projects w)"
    | (titled) np t a where "projects ?h = map (\<lambda>q. if project_id q = project_id p
          then q\<lparr> scenes := (scenes p)(sid \<mapsto> completed_over (scenes p sid) np
                                                (generateVideoFromPrompt np)),
                  name := t, author := a \<rparr>
          else q) (projects w)"
    by blast
  then show ?thesis
  proof cases
    case same
    with p1 cur assms(3) show ?thesis by auto
  next
    case scenes_only
    with p1 obtain q where q: "q \<in> set (projects w)"
        "p1 = (if project_id q = project_id p
          then q\<lparr> scenes := (scenes p)(sid \<mapsto> completed_over (scenes p sid) np
                                                (generateVideoFromPrompt np)) \<rparr> else q)"
      by auto
    show ?thesis
    proof (cases "project_id q = project_id p")
      case True
      with cur q(1) have "q = p" by blast
      with q(2) True text_kept show ?thesis by simp
    next
      case False
      with q(2) assms(3) show ?thesis by simp
    qed
  next
    case titled
    with p1 obtain q where q: "q \<in> set (projects w)"
        "p1 = (if project_id q = project_id p
          then q\<lparr> scenes := (scenes p)(sid \<mapsto> completed_over (scenes p sid) np
                                                (generateVideoFromPrompt np)),
                  name := t, author := a \<rparr> else q)"
      by auto
    show ?thesis
    proof (cases "project_id q = project_id p")
      case True
      with cur q(1) have "q = p" by blast
      with q(2) True text_kept show ?thesis by simp
    next
      case False
      with q(2) assms(3) show ?thesis by simp
    qed
  qed
qed

text \<open>
  C9. \<^verbatim>\<open>buildApiPromptText\<close> is a function of the story text, the text of the target
  scene, the scene id and the feedback: two projects that agree on the first two
  give the same instruction string. Generating a scene changes neither, so with a
  service that answers as a function of the request, a second \<^verbatim>\<open>generateScene\<close> on
  the project as the first generation left it sends the same request and returns
  the same prompt.
\<close>

theorem prompt_builder_deterministic:
  "(storyText p = storyText p'
      \<and> Option.bind (scenes p sid) scene_text = Option.bind (scenes p' sid) scene_text \<longrightarrow>
    buildApiPromptText p sid fb = buildApiPromptText p' sid fb)
   \<and> ((\<forall>q \<in> set (projects w). project_id q = project_id p \<longrightarrow> q = p) \<longrightarrow>
       (\<forall>p1 \<in> set (projects (handleGenerate_jsx eng (svc (payload_of p sid img fb)) p sid img fb
                                 isReg w)).
          project_id p1 = project_id p \<longrightarrow>
          payload_of p1 sid img fb = payload_of p sid img fb
          \<and> fst (generateScene eng (svc (payload_of p1 sid img fb)) p1 sid img fb w2)
              = fst (generateScene eng (svc (payload_of p sid img fb)) p sid img fb w1)))"
proof (intro conjI impI ballI)
  assume "storyText p = storyText p'
      \<and> Option.bind (scenes p sid) scene_text = Option.bind (scenes p' sid) scene_text"
  then show "buildApiPromptText p sid fb = buildApiPromptText p' sid fb"
    using buildApiPromptText_cong by blast
next
  fix p1
  assume cur: "\<forall>q \<in> set (projects w). project_id q = project_id p \<longrightarrow> q = p"
    and p1: "p1 \<in> set (projects (handleGenerate_jsx eng (svc (payload_of p sid img fb)) p sid img
                                   fb isReg w))"
    and same: "project_id p1 = project_id p"
  from after_generate_same_text [OF cur p1 same]
  have "buildApiPromptText p1 sid fb = buildApiPromptText p sid fb"
    using buildApiPromptText_cong by blast
  then have pay: "payload_of p1 sid img fb = payload_of p sid img fb"
    by (simp add: payload_of_def)
  then show "payload_of p1 sid img fb = payload_of p sid img fb" .
  from pay have "svc (payload_of p1 sid img fb) = svc (payload_of p sid img fb)" by simp
  with generateScene_fst_answer [of eng "svc (payload_of p sid img fb)" p1 sid img fb w2 p w1]
  show "fst (generateScene eng (svc (payload_of p1 sid img fb)) p1 sid img fb w2)
              = fst (generateScene eng (svc (payload_of p sid img fb)) p sid img fb w1)"
    by simp
qed

theorem prompt_builder_deterministic_witness:
  "projects world_pdf = [project_pdf]
   \<and> project_page1 \<in> set (projects (handleGenerate_jsx demo_engine
         (demo_service (payload_of project_pdf ''1'' ''aW1hZ2U='' [])) project_pdf ''1''
         ''aW1hZ2U='' [] False world_pdf))
   \<and> project_id project_page1 = project_id project_pdf
   \<and> map_option status (scenes project_pdf ''1'') = Some Pending
   \<and> map_option status (scenes project_page1 ''1'') = Some Completed
   \<and> payload_of project_page1 ''1'' ''aW1hZ2U='' [] = payload_of project_pdf ''1'' ''aW1hZ2U='' []
   \<and> fst (generateScene demo_engine (demo_service (payload_of project_page1 ''1'' ''aW1hZ2U='' []))
            project_page1 ''1'' ''aW1hZ2U='' [] world_page1)
       = fst (generateScene demo_engine (demo_service (payload_of project_pdf ''1'' ''aW1hZ2U='' []))
            project_pdf ''1'' ''aW1hZ2U='' [] world_pdf)
   \<and> fst (generateScene demo_engine (demo_service (payload_of project_pdf ''1'' ''aW1hZ2U='' []))
            project_pdf ''1'' ''aW1hZ2U='' [] world_pdf)
       = Inr (JObj [(''scene_summary'', JStr ''A fox runs'')])"
proof -
  have len: "length (projects world_pdf) = 1" "length (projects world_page1) = 1"
    by code_simp+
  have single: "projects world_pdf = [project_pdf]"
    using len(1) by (cases "projects world_pdf") (simp_all add: project_pdf_def)
  have svc: "demo_service (payload_of project_pdf ''1'' ''aW1hZ2U='' [])
      = Inr (ok_response page_payload)"
    by (simp add: demo_service_def payload_of_def)
  have mem: "project_page1 \<in> set (projects (handleGenerate_jsx demo_engine
         (demo_service (payload_of project_pdf ''1'' ''aW1hZ2U='' [])) project_pdf ''1''
         ''aW1hZ2U='' [] False world_pdf))"
    using len(2) unfolding svc world_page1_def [symmetric]
    by (cases "projects world_page1") (simp_all add: project_page1_def)
  have ids: "project_id project_page1 = project_id project_pdf"
    by code_simp
  have st: "map_option status (scenes project_pdf ''1'') = Some Pending"
      "map_option status (scenes project_page1 ''1'') = Some Completed"
    by code_simp+
  have cur: "\<forall>q \<in> set (projects world_pdf). project_id q = project_id project_pdf \<longrightarrow> q = project_pdf"
    using single by simp
  from prompt_builder_deterministic [of project_pdf project_pdf "''1''" "[]" world_pdf
      demo_engine demo_service "''aW1hZ2U=''" False world_page1 world_pdf,
      THEN conjunct2] cur mem ids
  have same: "payload_of project_page1 ''1'' ''aW1hZ2U='' [] = payload_of project_pdf ''1'' ''aW1hZ2U='' []
      \<and> fst (generateScene demo_engine (demo_service (payload_of project_page1 ''1'' ''aW1hZ2U='' []))
            project_page1 ''1'' ''aW1hZ2U='' [] world_page1)
        = fst (generateScene demo_engine (demo_service (payload_of project_pdf ''1'' ''aW1hZ2U='' []))
            project_pdf ''1'' ''aW1hZ2U='' [] world_pdf)"
    by blast
  have res: "fst (generateScene demo_engine (demo_service (payload_of project_pdf ''1'' ''aW1hZ2U='' []))
            project_pdf ''1'' ''aW1hZ2U='' [] world_pdf)
       = Inr (JObj [(''scene_summary'', JStr ''A fox runs'')])"
    unfolding svc
    by (simp add: generateScene_def Let_def ok_response_def first_text_def demo_engine_def
          demo_JSON_parse_def page_payload_def cover_payload_def)
  from single mem ids st same res show ?thesis by blast
qed

section \<open>Advancing the current scene: results\<close>

lemma String_nat_not_empty: "String_nat n \<noteq> []"
  by (subst String_nat.simps) simp

lemma effect_navItems_not_empty: "sid \<in> set (effect_navItems p) \<Longrightarrow> sid \<noteq> []"
  using String_nat_not_empty [symmetric]
  by (auto simp add: effect_navItems_def page_ids_def String_nat_not_empty)

lemma firstPendingScene_Some:
  assumes "firstPendingScene p = Some f"
  shows "f \<noteq> [] \<and> f \<in> set (effect_navItems p) \<and> not_completed p f"
proof -
  from assms have "f \<in> set (effect_navItems p) \<and> not_completed p f"
    unfolding firstPendingScene_def by (auto simp add: find_Some_iff)
  then show ?thesis using effect_navItems_not_empty by blast
qed

lemma advance_to_first_pending:
  "firstPendingScene p = Some f \<Longrightarrow> currentSceneId (advance p w) = f"
  using firstPendingScene_Some [of p f]
  by (simp add: advance_def setCurrentSceneId_def)

lemma effect_plain_advances:
  assumes "storyText p \<noteq> []" and "not_completed p (currentSceneId w)"
    and "firstPendingScene p = Some f"
  shows "currentSceneId (ProjectWorkspace_effect_plain p w) = f"
  using assms by (simp add: ProjectWorkspace_effect_plain_def advance_to_first_pending)

lemma effect_plain_keeps_completed:
  assumes "\<not> not_completed p (currentSceneId w)"
  shows "ProjectWorkspace_effect_plain p w = w"
  using assms by (simp add: ProjectWorkspace_effect_plain_def)

lemma effect_jsx_always_advances:
  assumes "storyText p \<noteq> []" and "firstPendingScene p = Some f"
  shows "currentSceneId (ProjectWorkspace_effect_jsx p w) = f"
  using assms by (simp add: ProjectWorkspace_effect_jsx_def advance_to_first_pending)

text \<open>
  C8. The effect of the JSX build has no exception for a completed scene. With the
  cover of \<open>project_pdf\<close> completed and page 1 pending, the user selects the cover in
  the sidebar, which is enabled; the effect of the JSX build then moves the current
  scene to page 1, and the effect of the plain build leaves it on the cover.
\<close>

theorem effect_jsx_leaves_completed_scene:
  "storyText project_pdf \<noteq> []
   \<and> \<not> isDisabled project_pdf 0
   \<and> navItems project_pdf ! 0 = ''cover''
   \<and> \<not> not_completed project_pdf ''cover''
   \<and> SceneGenerator project_pdf ''cover'' = CompletedSceneViewer
   \<and> currentSceneId (setCurrentSceneId ''cover'' world_pdf) = ''cover''
   \<and> currentSceneId (ProjectWorkspace_effect_jsx project_pdf (setCurrentSceneId ''cover'' world_pdf))
       = ''1''
   \<and> currentSceneId (ProjectWorkspace_effect_plain project_pdf (setCurrentSceneId ''cover'' world_pdf))
       = ''cover''"
  by code_simp

section \<open>Scene ids\<close>

lemma of_char_digit: "d < 10 \<Longrightarrow> of_char (digit d) = 48 + d"
  by (simp add: digit_def)

lemma digit_inj: "a < 10 \<Longrightarrow> b < 10 \<Longrightarrow> digit a = digit b \<Longrightarrow> a = b"
  using of_char_digit [of a] of_char_digit [of b] by (metis add_left_cancel)

lemma String_nat_small: "n < 10 \<Longrightarrow> String_nat n = [digit n]"
  by (subst String_nat.simps) simp

lemma String_nat_large:
  "\<not> n < 10 \<Longrightarrow> String_nat n = String_nat (n div 10) @ [digit (n mod 10)]"
  by (subst String_nat.simps) simp

lemma String_nat_length_large: "\<not> n < 10 \<Longrightarrow> 2 \<le> length (String_nat n)"
proof -
  assume "\<not> n < 10"
  moreover have "1 \<le> length (String_nat (n div 10))"
    using String_nat_not_empty [of "n div 10"] by (cases "String_nat (n div 10)") simp_all
  ultimately show ?thesis by (simp add: String_nat_large)
qed

lemma String_nat_inj: "String_nat n = String_nat m \<Longrightarrow> n = m"
proof (induction n arbitrary: m rule: String_nat.induct)
  case (1 n)
  show ?case
  proof (cases "n < 10")
    case n_small: True
    show ?thesis
    proof (cases "m < 10")
      case True
      with n_small "1.prems" show ?thesis
        by (simp add: String_nat_small digit_inj)
    next
      case False
      from String_nat_length_large [OF this] have "2 \<le> length (String_nat m)" .
      moreover from n_small have "length (String_nat n) = 1"
        by (simp add: String_nat_small)
      with "1.prems" have "length (String_nat m) = 1"
        by simp
      ultimately show ?thesis by simp
    qed
  next
    case n_large: False
    show ?thesis
    proof (cases "m < 10")
      case True
      from String_nat_length_large [OF n_large] have "2 \<le> length (String_nat n)" .
      moreover from True have "length (String_nat m) = 1"
        by (simp add: String_nat_small)
      with "1.prems" have "length (String_nat n) = 1"
        by simp
      ultimately show ?thesis by simp
    next
      case False
      with n_large "1.prems"
      have eq: "String_nat (n div 10) = String_nat (m div 10)"
          "digit (n mod 10) = digit (m mod 10)"
        by (simp_all add: String_nat_large)
      from "1.IH" [OF n_large eq(1)] have d: "n div 10 = m div 10" .
      from eq(2) have r: "n mod 10 = m mod 10"
        by (intro digit_inj) simp_all
      from d r show ?thesis
        by (metis div_mult_mod_eq)
    qed
  qed
qed



section \<open>The scene map built at ingestion\<close>

lemma fold_scene_at:
  "a \<le> i \<Longrightarrow> i < b \<Longrightarrow>
   fold (\<lambda>i m. m(String_nat i \<mapsto> g i)) [a..<b] m0 (String_nat i) = Some (g i)"
proof (induction b)
  case 0
  then show ?case by simp
next
  case (Suc b)
  show ?case
  proof (cases "i = b")
    case True
    with Suc.prems show ?thesis by simp
  next
    case False
    with Suc.prems have "i < b" by simp
    moreover from False have "String_nat i \<noteq> String_nat b"
      using String_nat_inj by blast
    ultimately show ?thesis
      using Suc.IH Suc.prems(1) by simp
  qed
qed

lemma fold_scene_other:
  "(\<forall>i. a \<le> i \<and> i < b \<longrightarrow> k \<noteq> String_nat i) \<Longrightarrow>
   fold (\<lambda>i m. m(String_nat i \<mapsto> g i)) [a..<b] m0 k = m0 k"
proof (induction b)
  case 0
  then show ?case by simp
next
  case (Suc b)
  show ?case
  proof (cases "a \<le> b")
    case True
    with Suc.prems have "k \<noteq> String_nat b" by simp
    moreover from Suc.prems have "\<forall>i. a \<le> i \<and> i < b \<longrightarrow> k \<noteq> String_nat i" by simp
    ultimately show ?thesis
      using Suc.IH True by simp
  next
    case False
    then show ?thesis by simp
  qed
qed

lemma scenes_of_page:
  assumes "1 \<le> i" and "i \<le> totalPages_of txt"
  shows "scenes_of txt (String_nat i) = Some (pending_scene (Some (page_text (pages txt) i)))"
  unfolding scenes_of_def using assms by (intro fold_scene_at) simp_all

lemma scenes_of_other:
  assumes "\<forall>i. 1 \<le> i \<and> i \<le> totalPages_of txt \<longrightarrow> k \<noteq> String_nat i"
  shows "scenes_of txt k =
     [''cover'' \<mapsto> pending_scene None, ''end'' \<mapsto> pending_scene None] k"
  unfolding scenes_of_def using assms by (intro fold_scene_other) simp





lemma scenes_of_pending:
  assumes "scenes_of txt k = Some s"
  shows "status s = Pending \<and> prompt s = None \<and> videoUrl s = None"
proof (cases "\<exists>i. 1 \<le> i \<and> i \<le> totalPages_of txt \<and> k = String_nat i")
  case True
  then obtain i where i: "1 \<le> i" "i \<le> totalPages_of txt" "k = String_nat i" by blast
  from scenes_of_page [OF i(1,2)] i(3) assms show ?thesis
    by (auto simp add: pending_scene_def)
next
  case False
  then have "\<forall>i. 1 \<le> i \<and> i \<le> totalPages_of txt \<longrightarrow> k \<noteq> String_nat i" by blast
  from scenes_of_other [OF this] assms show ?thesis
    by (auto simp add: pending_scene_def split: if_splits)
qed

section \<open>Splitting the text: results\<close>














lemma pages_not_blank: "p \<in> set (pages txt) \<Longrightarrow> trim p \<noteq> [] \<and> p \<noteq> []"
  by (auto simp add: pages_def trim_def)



section \<open>Uploads: results\<close>

lemma spread_whole: "spread p (whole q) = q"
  by (simp add: spread_def whole_def)

lemma spread_plain_upload:
  "spread p (no_update\<lparr> u_storyText := Some t, u_totalPages := Some n, u_scenes := Some S,
                         u_name := Some a, u_author := Some b \<rparr>)
     = p\<lparr> storyText := t, totalPages := n, scenes := S, name := a, author := b \<rparr>"
  by (simp add: spread_def no_update_def)

lemma handleFileChange_plain_ok:
  assumes "endsWith (file_name f) ''.txt''" and "\<not> endsWith (file_name f) ''.pdf''"
    and "file_text f = Inr t" and "trim t \<noteq> []"
  shows "handleFileChange_plain (Some f) project w =
     w\<lparr> projects := map (\<lambda>p. if project_id p = project_id project
                              then p\<lparr> storyText := t, totalPages := totalPages_of t,
                                     scenes := scenes_of t,
                                     name := JStr ''My Animation Project'',
                                     author := JStr ''Author Name'' \<rparr>
                              else p) (projects w),
        currentSceneId := ''cover'', error := [] \<rparr>"
  using assms
  by (simp add: handleFileChange_plain_def Let_def setError_def setCurrentSceneId_def
        updateProject_def spread_plain_upload)

lemma handleFileChange_plain_projects:
  "projects (handleFileChange_plain chosen project w) = projects w
   \<or> (\<exists>t. projects (handleFileChange_plain chosen project w) =
          map (\<lambda>p. if project_id p = project_id project
                    then p\<lparr> storyText := t, totalPages := totalPages_of t,
                           scenes := scenes_of t,
                           name := JStr ''My Animation Project'',
                           author := JStr ''Author Name'' \<rparr>
                    else p) (projects w))"
  by (auto simp add: handleFileChange_plain_def Let_def setError_def setCurrentSceneId_def
        updateProject_def spread_plain_upload split: option.splits sum.splits)

lemma handleFileChange_jsx_failed:
  assumes "extract_pdf eng f = Inr (t, cover)" and "trim t \<noteq> []"
    and "fst (generateScene eng fetched
           (project\<lparr> storyText := t, totalPages := totalPages_of t, scenes := scenes_of t \<rparr>)
           ''cover'' cover [] (setError [] w)) = Inl err"
  shows "handleFileChange_jsx eng fetched (Some f) project w =
     setError (message err) (snd (generateScene eng fetched
           (project\<lparr> storyText := t, totalPages := totalPages_of t, scenes := scenes_of t \<rparr>)
           ''cover'' cover [] (setError [] w)))"
proof (cases "generateScene eng fetched
           (project\<lparr> storyText := t, totalPages := totalPages_of t, scenes := scenes_of t \<rparr>)
           ''cover'' cover [] (setError [] w)")
  case (Pair a b)
  with assms show ?thesis
    by (simp add: handleFileChange_jsx_def Let_def)
qed

lemma handleFileChange_jsx_null:
  assumes "extract_pdf eng f = Inr (t, cover)" and "trim t \<noteq> []"
    and "fst (generateScene eng fetched
           (project\<lparr> storyText := t, totalPages := totalPages_of t, scenes := scenes_of t \<rparr>)
           ''cover'' cover [] (setError [] w)) = Inr JNull"
  shows "handleFileChange_jsx eng fetched (Some f) project w =
     setError (message (null_read eng ''extracted_title'')) (snd (generateScene eng fetched
           (project\<lparr> storyText := t, totalPages := totalPages_of t, scenes := scenes_of t \<rparr>)
           ''cover'' cover [] (setError [] w)))"
proof (cases "generateScene eng fetched
           (project\<lparr> storyText := t, totalPages := totalPages_of t, scenes := scenes_of t \<rparr>)
           ''cover'' cover [] (setError [] w)")
  case (Pair a b)
  with assms show ?thesis
    by (simp add: handleFileChange_jsx_def Let_def get_prop_def)
qed

lemma handleFileChange_jsx_ok:
  assumes "extract_pdf eng f = Inr (t, cover)" and "trim t \<noteq> []"
    and "fst (generateScene eng fetched
           (project\<lparr> storyText := t, totalPages := totalPages_of t, scenes := scenes_of t \<rparr>)
           ''cover'' cover [] (setError [] w)) = Inr np"
    and "np \<noteq> JNull"
  shows "handleFileChange_jsx eng fetched (Some f) project w =
     setCurrentSceneId ''cover''
       (updateProject (project_id project)
          (whole (project\<lparr> storyText := t, totalPages := totalPages_of t,
                     scenes := (scenes_of t)
                       (''cover'' \<mapsto> \<lparr> status = Completed, scene_text = None,
                                        prompt = Some np,
                                        videoUrl = Some (generateVideoFromPrompt np) \<rparr>),
                     name := or_else (own_prop np ''extracted_title'') (name project),
                     author := or_else (own_prop np ''extracted_author'') (author project) \<rparr>))
          (snd (generateScene eng fetched
           (project\<lparr> storyText := t, totalPages := totalPages_of t, scenes := scenes_of t \<rparr>)
           ''cover'' cover [] (setError [] w))))"
proof (cases "generateScene eng fetched
           (project\<lparr> storyText := t, totalPages := totalPages_of t, scenes := scenes_of t \<rparr>)
           ''cover'' cover [] (setError [] w)")
  case (Pair a b)
  with assms show ?thesis
    by (simp add: handleFileChange_jsx_def Let_def get_prop_def)
qed

lemma handleFileChange_jsx_none:
  "handleFileChange_jsx eng fetched None project w = w"
  by (simp add: handleFileChange_jsx_def)

lemma handleFileChange_jsx_extract_failed:
  "extract_pdf eng f = Inl err \<Longrightarrow>
   handleFileChange_jsx eng fetched (Some f) project w = setError (message err) (setError [] w)"
  by (simp add: handleFileChange_jsx_def Let_def)

lemma handleFileChange_jsx_blank:
  "extract_pdf eng f = Inr (t, cover) \<Longrightarrow> trim t = [] \<Longrightarrow>
   handleFileChange_jsx eng fetched (Some f) project w =
     setError ''File is empty or text could not be extracted.'' (setError [] w)"
  by (simp add: handleFileChange_jsx_def Let_def)

lemma handleFileChange_jsx_projects:
  "projects (handleFileChange_jsx eng fetched chosen project w) = projects w
   \<or> (\<exists>t np a b. np \<noteq> JNull
        \<and> projects (handleFileChange_jsx eng fetched chosen project w) =
          map (\<lambda>q. if project_id q = project_id project
                    then project\<lparr> storyText := t, totalPages := totalPages_of t,
                           scenes := (scenes_of t)
                             (''cover'' \<mapsto> \<lparr> status = Completed, scene_text = None,
                                              prompt = Some np,
                                              videoUrl = Some (generateVideoFromPrompt np) \<rparr>),
                           name := a, author := b \<rparr>
                    else q) (projects w))"
proof (cases chosen)
  case None
  then show ?thesis by (simp add: handleFileChange_jsx_none)
next
  case (Some f)
  show ?thesis
  proof (cases "extract_pdf eng f")
    case (Inl err)
    with Some show ?thesis
      by (simp add: handleFileChange_jsx_extract_failed setError_def)
  next
    case (Inr tc)
    obtain t cover where tc: "tc = (t, cover)" by (cases tc)
    let ?g = "generateScene eng fetched
           (project\<lparr> storyText := t, totalPages := totalPages_of t, scenes := scenes_of t \<rparr>)
           ''cover'' cover [] (setError [] w)"
    have pg: "projects (snd ?g) = projects w"
      by (simp add: generateScene_snd setError_def)
    show ?thesis
    proof (cases "trim t = []")
      case True
      with Some Inr tc show ?thesis
        by (simp add: handleFileChange_jsx_blank setError_def)
    next
      case False
      show ?thesis
      proof (cases "fst ?g")
        case (Inl err)
        from handleFileChange_jsx_failed [of eng f t cover fetched project w err] Inr tc False Inl
          Some pg
        show ?thesis by (simp add: setError_def)
      next
        case np: (Inr np)
        show ?thesis
        proof (cases "np = JNull")
          case True
          from handleFileChange_jsx_null [of eng f t cover fetched project w] Inr tc False np True
            Some pg
          show ?thesis by (simp add: setError_def)
        next
          case not_null: False
          from handleFileChange_jsx_ok [of eng f t cover fetched project w np] Inr tc False np
            not_null Some pg
          have "projects (handleFileChange_jsx eng fetched chosen project w) =
              map (\<lambda>q. if project_id q = project_id project
                    then project\<lparr> storyText := t, totalPages := totalPages_of t,
                           scenes := (scenes_of t)
                             (''cover'' \<mapsto> \<lparr> status = Completed, scene_text = None,
                                              prompt = Some np,
                                              videoUrl = Some (generateVideoFromPrompt np) \<rparr>),
                           name := or_else (own_prop np ''extracted_title'') (name project),
                           author := or_else (own_prop np ''extracted_author'') (author project) \<rparr>
                    else q) (projects w)"
            by (simp add: setCurrentSceneId_def projects_updateProject spread_whole)
          with not_null show ?thesis by blast
        qed
      qed
    qed
  qed
qed

text \<open>
  C6, as amended. The plain build, given a text file that is not blank, commits at
  once: story text, page count, the all-pending scene map and the names
  \<^verbatim>\<open>My Animation Project\<close> and \<^verbatim>\<open>Author Name\<close>, and it sends no request. The JSX
  build, given a PDF whose text is not blank, sends the request for the cover built
  from the all-pending project, and commits nothing before the answer: when the
  generation fails the projects are as before and the error is shown; when it
  returns a prompt other than \<^verbatim>\<open>null\<close>, one update stores the story text, the page
  count, the scene map with the cover completed and every other scene pending, and
  as name and author the extracted title and author or else the previous ones.
\<close>

theorem ingestion_commit:
  "(endsWith (file_name f) ''.txt'' \<and> \<not> endsWith (file_name f) ''.pdf''
      \<and> file_text f = Inr t \<and> trim t \<noteq> [] \<longrightarrow>
      handleFileChange_plain (Some f) project w =
        w\<lparr> projects := map (\<lambda>p. if project_id p = project_id project
                              then p\<lparr> storyText := t, totalPages := totalPages_of t,
                                     scenes := scenes_of t,
                                     name := JStr ''My Animation Project'',
                                     author := JStr ''Author Name'' \<rparr>
                              else p) (projects w),
           currentSceneId := ''cover'', error := [] \<rparr>
      \<and> (\<forall>sid s. scenes_of t sid = Some s \<longrightarrow> status s = Pending))
   \<and> (extract_pdf eng f = Inr (t, cover) \<and> trim t \<noteq> [] \<longrightarrow>
      requests (handleFileChange_jsx eng fetched (Some f) project w) =
        requests w @ [payload_of (project\<lparr> storyText := t, totalPages := totalPages_of t,
                                          scenes := scenes_of t \<rparr>) ''cover'' cover []]
      \<and> (\<forall>err. fst (generateScene eng fetched
                 (project\<lparr> storyText := t, totalPages := totalPages_of t, scenes := scenes_of t \<rparr>)
                 ''cover'' cover [] (setError [] w)) = Inl err \<longrightarrow>
            projects (handleFileChange_jsx eng fetched (Some f) project w) = projects w
            \<and> error (handleFileChange_jsx eng fetched (Some f) project w) = message err)
      \<and> (fst (generateScene eng fetched
                 (project\<lparr> storyText := t, totalPages := totalPages_of t, scenes := scenes_of t \<rparr>)
                 ''cover'' cover [] (setError [] w)) = Inr JNull \<longrightarrow>
            projects (handleFileChange_jsx eng fetched (Some f) project w) = projects w
            \<and> error (handleFileChange_jsx eng fetched (Some f) project w)
                = message (null_read eng ''extracted_title''))
      \<and> (\<forall>np. fst (generateScene eng fetched
                 (project\<lparr> storyText := t, totalPages := totalPages_of t, scenes := scenes_of t \<rparr>)
                 ''cover'' cover [] (setError [] w)) = Inr np \<and> np \<noteq> JNull \<longrightarrow>
            projects (handleFileChange_jsx eng fetched (Some f) project w) =
              map (\<lambda>q. if project_id q = project_id project
                    then project\<lparr> storyText := t, totalPages := totalPages_of t,
                           scenes := (scenes_of t)
                             (''cover'' \<mapsto> \<lparr> status = Completed, scene_text = None,
                                              prompt = Some np,
                                              videoUrl = Some (generateVideoFromPrompt np) \<rparr>),
                           name := or_else (own_prop np ''extracted_title'') (name project),
                           author := or_else (own_prop np ''extracted_author'') (author project) \<rparr>
                    else q) (projects w)
            \<and> error (handleFileChange_jsx eng fetched (Some f) project w) = []
            \<and> currentSceneId (handleFileChange_jsx eng fetched (Some f) project w) = ''cover''))"
proof (intro conjI impI allI)
  assume h: "endsWith (file_name f) ''.txt'' \<and> \<not> endsWith (file_name f) ''.pdf''
      \<and> file_text f = Inr t \<and> trim t \<noteq> []"
  then show "handleFileChange_plain (Some f) project w =
        w\<lparr> projects := map (\<lambda>p. if project_id p = project_id project
                              then p\<lparr> storyText := t, totalPages := totalPages_of t,
                                     scenes := scenes_of t,
                                     name := JStr ''My Animation Project'',
                                     author := JStr ''Author Name'' \<rparr>
                              else p) (projects w),
           currentSceneId := ''cover'', error := [] \<rparr>"
    by (intro handleFileChange_plain_ok) simp_all
next
  fix sid s
  assume "scenes_of t sid = Some s"
  then show "status s = Pending" using scenes_of_pending by blast
next
  let ?g = "generateScene eng fetched
      (project\<lparr> storyText := t, totalPages := totalPages_of t, scenes := scenes_of t \<rparr>)
      ''cover'' cover [] (setError [] w)"
  let ?h = "handleFileChange_jsx eng fetched (Some f) project w"
  assume h: "extract_pdf eng f = Inr (t, cover) \<and> trim t \<noteq> []"
  have sg: "snd ?g = w\<lparr> error := [], requests := requests w @
      [payload_of (project\<lparr> storyText := t, totalPages := totalPages_of t,
                             scenes := scenes_of t \<rparr>) ''cover'' cover []] \<rparr>"
    by (simp add: generateScene_snd setError_def payload_of_def)
  show "requests ?h = requests w @ [payload_of (project\<lparr> storyText := t,
      totalPages := totalPages_of t, scenes := scenes_of t \<rparr>) ''cover'' cover []]"
  proof (cases "fst ?g")
    case (Inl err)
    from handleFileChange_jsx_failed [of eng f t cover fetched project w err] h Inl sg
    show ?thesis by (simp add: setError_def)
  next
    case (Inr np)
    show ?thesis
    proof (cases "np = JNull")
      case True
      from handleFileChange_jsx_null [of eng f t cover fetched project w] h Inr True sg
      show ?thesis by (simp add: setError_def)
    next
      case False
      from handleFileChange_jsx_ok [of eng f t cover fetched project w np] h Inr False sg
      show ?thesis by (simp add: setCurrentSceneId_def updateProject_def)
    qed
  qed
  {
    fix err
    assume "fst ?g = Inl err"
    from handleFileChange_jsx_failed [of eng f t cover fetched project w err] h this sg
    show "projects ?h = projects w" and "error ?h = message err"
      by (simp_all add: setError_def)
  }
  {
    assume "fst ?g = Inr JNull"
    from handleFileChange_jsx_null [of eng f t cover fetched project w] h this sg
    show "projects ?h = projects w" and "error ?h = message (null_read eng ''extracted_title'')"
      by (simp_all add: setError_def)
  }
  {
    fix np
    assume "fst ?g = Inr np \<and> np \<noteq> JNull"
    with handleFileChange_jsx_ok [of eng f t cover fetched project w np] h sg
    have eq: "?h = setCurrentSceneId ''cover''
       (updateProject (project_id project)
          (whole (project\<lparr> storyText := t, totalPages := totalPages_of t,
                     scenes := (scenes_of t)
                       (''cover'' \<mapsto> \<lparr> status = Completed, scene_text = None,
                                        prompt = Some np,
                                        videoUrl = Some (generateVideoFromPrompt np) \<rparr>),
                     name := or_else (own_prop np ''extracted_title'') (name project),
                     author := or_else (own_prop np ''extracted_author'') (author project) \<rparr>))
          (w\<lparr> error := [], requests := requests w @
      [payload_of (project\<lparr> storyText := t, totalPages := totalPages_of t,
                             scenes := scenes_of t \<rparr>) ''cover'' cover []] \<rparr>))"
      by simp
    show "projects ?h = map (\<lambda>q. if project_id q = project_id project
                    then project\<lparr> storyText := t, totalPages := totalPages_of t,
                           scenes := (scenes_of t)
                             (''cover'' \<mapsto> \<lparr> status = Completed, scene_text = None,
                                              prompt = Some np,
                                              videoUrl = Some (generateVideoFromPrompt np) \<rparr>),
                           name := or_else (own_prop np ''extracted_title'') (name project),
                           author := or_else (own_prop np ''extracted_author'') (author project) \<rparr>
                    else q) (projects w)"
      unfolding eq by (simp add: setCurrentSceneId_def projects_updateProject spread_whole)
    show "error ?h = []"
      unfolding eq by (simp add: setCurrentSceneId_def updateProject_def)
    show "currentSceneId ?h = ''cover''"
      unfolding eq by (simp add: setCurrentSceneId_def updateProject_def)
  }
qed

theorem ingestion_commit_witness:
  "endsWith (file_name story_txt) ''.txt'' \<and> \<not> endsWith (file_name story_txt) ''.pdf''
   \<and> file_text story_txt = Inr two_pages \<and> trim two_pages \<noteq> []
   \<and> handleFileChange_plain (Some story_txt) new_project world0 =
        world0\<lparr> projects := map (\<lambda>p. if project_id p = project_id new_project
                              then p\<lparr> storyText := two_pages,
                                     totalPages := totalPages_of two_pages,
                                     scenes := scenes_of two_pages,
                                     name := JStr ''My Animation Project'',
                                     author := JStr ''Author Name'' \<rparr>
                              else p) (projects world0),
           currentSceneId := ''cover'', error := [] \<rparr>
   \<and> extract_pdf demo_engine book_pdf = Inr (two_pages @ [nl, nl], ''/9j/4AAQ'')
   \<and> trim (two_pages @ [nl, nl]) \<noteq> []
   \<and> fst (generateScene demo_engine (Inr (ok_response cover_payload))
          (new_project\<lparr> storyText := two_pages @ [nl, nl],
                          totalPages := totalPages_of (two_pages @ [nl, nl]),
                          scenes := scenes_of (two_pages @ [nl, nl]) \<rparr>)
          ''cover'' ''/9j/4AAQ'' [] (setError [] world0))
       = Inr (JObj [(''extracted_title'', JStr ''Foo''), (''extracted_author'', JStr ''Bar'')])
   \<and> projects (handleFileChange_jsx demo_engine (Inr (ok_response cover_payload)) (Some book_pdf)
                 new_project world0) =
       map (\<lambda>q. if project_id q = project_id new_project
             then new_project\<lparr> storyText := two_pages @ [nl, nl],
                    totalPages := totalPages_of (two_pages @ [nl, nl]),
                    scenes := (scenes_of (two_pages @ [nl, nl]))
                      (''cover'' \<mapsto> \<lparr> status = Completed, scene_text = None,
                           prompt = Some (JObj [(''extracted_title'', JStr ''Foo''),
                                                (''extracted_author'', JStr ''Bar'')]),
                           videoUrl = Some (generateVideoFromPrompt
                             (JObj [(''extracted_title'', JStr ''Foo''),
                                    (''extracted_author'', JStr ''Bar'')])) \<rparr>),
                    name := JStr ''Foo'', author := JStr ''Bar'' \<rparr>
             else q) (projects world0)
   \<and> fst (generateScene demo_engine (Inr error_500)
          (new_project\<lparr> storyText := two_pages @ [nl, nl],
                          totalPages := totalPages_of (two_pages @ [nl, nl]),
                          scenes := scenes_of (two_pages @ [nl, nl]) \<rparr>)
          ''cover'' ''/9j/4AAQ'' [] (setError [] world0))
       = Inl (Error ''API Error: 500 Internal Server Error - overloaded'')
   \<and> projects (handleFileChange_jsx demo_engine (Inr error_500) (Some book_pdf) new_project
                 world0) = projects world0
   \<and> error (handleFileChange_jsx demo_engine (Inr error_500) (Some book_pdf) new_project world0)
       = ''API Error: 500 Internal Server Error - overloaded''"
proof -
  let ?foo = "JObj [(''extracted_title'', JStr ''Foo''), (''extracted_author'', JStr ''Bar'')]"
  let ?init = "new_project\<lparr> storyText := two_pages @ [nl, nl],
                          totalPages := totalPages_of (two_pages @ [nl, nl]),
                          scenes := scenes_of (two_pages @ [nl, nl]) \<rparr>"
  have f1: "endsWith (file_name story_txt) ''.txt''" "\<not> endsWith (file_name story_txt) ''.pdf''"
    by code_simp+
  have f2: "file_text story_txt = Inr two_pages"
    by (simp add: story_txt_def two_pages_def)
  have f3: "trim two_pages \<noteq> []" "trim (two_pages @ [nl, nl]) \<noteq> []"
    by code_simp+
  have e1: "extract_pdf demo_engine book_pdf = Inr (two_pages @ [nl, nl], ''/9j/4AAQ'')"
    by (simp add: extract_pdf_def book_pdf_def demo_engine_def endsWith_def fullText_def
          two_pages_def)
  have s500: "String_nat 500 = ''500''" by code_simp
  have g1: "fst (generateScene demo_engine (Inr (ok_response cover_payload)) ?init
          ''cover'' ''/9j/4AAQ'' [] (setError [] world0)) = Inr ?foo"
    by (simp add: generateScene_def Let_def ok_response_def first_text_def demo_engine_def
          demo_JSON_parse_def cover_payload_def)
  have g2: "fst (generateScene demo_engine (Inr error_500) ?init
          ''cover'' ''/9j/4AAQ'' [] (setError [] world0))
       = Inl (Error ''API Error: 500 Internal Server Error - overloaded'')"
    by (simp add: generateScene_def Let_def error_500_def s500)
  have names: "name new_project = JStr ''Untitled Project''"
      "author new_project = JStr ''Unknown Author''"
    by (simp_all add: new_project_def createNewProject_def)
  note p = ingestion_commit [of story_txt two_pages new_project world0, THEN conjunct1]
  note j1 = ingestion_commit [of book_pdf "two_pages @ [nl, nl]" new_project world0 demo_engine
      "''/9j/4AAQ''" "Inr (ok_response cover_payload)", THEN conjunct2]
  note j2 = ingestion_commit [of book_pdf "two_pages @ [nl, nl]" new_project world0 demo_engine
      "''/9j/4AAQ''" "Inr error_500", THEN conjunct2]
  from p f1 f2 f3 have r1: "handleFileChange_plain (Some story_txt) new_project world0 =
        world0\<lparr> projects := map (\<lambda>p. if project_id p = project_id new_project
                              then p\<lparr> storyText := two_pages,
                                     totalPages := totalPages_of two_pages,
                                     scenes := scenes_of two_pages,
                                     name := JStr ''My Animation Project'',
                                     author := JStr ''Author Name'' \<rparr>
                              else p) (projects world0),
           currentSceneId := ''cover'', error := [] \<rparr>"
    by blast
  from j1 e1 f3 g1 have "projects (handleFileChange_jsx demo_engine (Inr (ok_response cover_payload))
      (Some book_pdf) new_project world0) =
       map (\<lambda>q. if project_id q = project_id new_project
             then new_project\<lparr> storyText := two_pages @ [nl, nl],
                    totalPages := totalPages_of (two_pages @ [nl, nl]),
                    scenes := (scenes_of (two_pages @ [nl, nl]))
                      (''cover'' \<mapsto> \<lparr> status = Completed, scene_text = None,
                           prompt = Some ?foo,
                           videoUrl = Some (generateVideoFromPrompt ?foo) \<rparr>),
                    name := or_else (own_prop ?foo ''extracted_title'') (name new_project),
                    author := or_else (own_prop ?foo ''extracted_author'') (author new_project) \<rparr>
             else q) (projects world0)"
    by blast
  then have r2: "projects (handleFileChange_jsx demo_engine (Inr (ok_response cover_payload))
      (Some book_pdf) new_project world0) =
       map (\<lambda>q. if project_id q = project_id new_project
             then new_project\<lparr> storyText := two_pages @ [nl, nl],
                    totalPages := totalPages_of (two_pages @ [nl, nl]),
                    scenes := (scenes_of (two_pages @ [nl, nl]))
                      (''cover'' \<mapsto> \<lparr> status = Completed, scene_text = None,
                           prompt = Some ?foo,
                           videoUrl = Some (generateVideoFromPrompt ?foo) \<rparr>),
                    name := JStr ''Foo'', author := JStr ''Bar'' \<rparr>
             else q) (projects world0)"
    by (simp add: or_else_def)
  from j2 e1 f3 g2 have r3: "projects (handleFileChange_jsx demo_engine (Inr error_500)
      (Some book_pdf) new_project world0) = projects world0
      \<and> error (handleFileChange_jsx demo_engine (Inr error_500) (Some book_pdf) new_project world0)
       = message (Error ''API Error: 500 Internal Server Error - overloaded'')"
    by blast
  from f1 f2 f3 r1 e1 g1 r2 g2 r3 show ?thesis by simp
qed

theorem ingestion_commit_counterexample:
  "extract_pdf demo_engine book_pdf = Inr (two_pages @ [nl, nl], ''/9j/4AAQ'')
   \<and> pages (two_pages @ [nl, nl]) = [''Page1'', ''Page2'']
   \<and> length (projects (handleFileChange_jsx demo_engine (Inr error_500) (Some book_pdf)
                          new_project world0)) = 1
   \<and> storyText (hd (projects (handleFileChange_jsx demo_engine (Inr error_500) (Some book_pdf)
                                 new_project world0))) = []
   \<and> totalPages (hd (projects (handleFileChange_jsx demo_engine (Inr error_500) (Some book_pdf)
                                 new_project world0))) = 0
   \<and> scenes (hd (projects (handleFileChange_jsx demo_engine (Inr error_500) (Some book_pdf)
                             new_project world0))) ''cover'' = None
   \<and> scenes (hd (projects (handleFileChange_jsx demo_engine (Inr error_500) (Some book_pdf)
                             new_project world0))) ''1'' = None
   \<and> error (handleFileChange_jsx demo_engine (Inr error_500) (Some book_pdf) new_project world0)
       = ''API Error: 500 Internal Server Error - overloaded''"
  by code_simp

section \<open>Scene invariant: results\<close>

lemma scenes_ok_scenes_of: "scenes_ok (scenes_of t)"
  using scenes_of_pending [of "t"] by (auto simp add: scenes_ok_def scene_ok_def)

lemma scenes_ok_completed:
  assumes "scenes_ok m" and "sid = ''cover'' \<longrightarrow> np \<noteq> JNull"
  shows "scenes_ok (m(sid \<mapsto> completed_over old np url))"
  using assms by (auto simp add: scenes_ok_def scene_ok_def completed_over_def)

lemma scenes_ok_cover:
  assumes "scenes_ok m" and "np \<noteq> JNull"
  shows "scenes_ok (m(''cover'' \<mapsto> \<lparr> status = Completed, scene_text = None, prompt = Some np,
                                     videoUrl = Some url \<rparr>))"
  using assms by (auto simp add: scenes_ok_def scene_ok_def)

lemma mockPrompt_not_null: "mockPrompt eng sid \<noteq> JNull"
  by (simp add: mockPrompt_def)

lemma handleGenerate_plain_projects:
  "projects (handleGenerate_plain eng project sceneId w) =
     map (\<lambda>q. if project_id q = project_id project
               then q\<lparr> scenes := (scenes project)
                      (sceneId \<mapsto> completed_over (scenes project sceneId) (mockPrompt eng sceneId)
                         ''https://storage.googleapis.com/gtv-videos-bucket/sample/ForBiggerFun.mp4'') \<rparr>
               else q) (projects w)"
  by (simp add: handleGenerate_plain_def Let_def projects_updateProject spread_scenes_only
        setError_def)

lemma map_update_ok:
  assumes "\<forall>p \<in> set ps. scenes_ok (scenes p)" and "scenes_ok S" and "\<And>q. scenes (f q) = S"
  shows "\<forall>p \<in> set (map (\<lambda>q. if c q then f q else q) ps). scenes_ok (scenes p)"
  using assms by auto

lemma reachable_scenes_ok:
  "reachable b w \<Longrightarrow> \<forall>p \<in> set (projects w). scenes_ok (scenes p)"
proof (induction rule: reachable.induct)
  case (start b)
  then show ?case by (simp add: initial_world_def)
next
  case (create b w now_id now_iso)
  then show ?case by (simp add: createNewProject_def scenes_ok_def)
next
  case (delete b w i)
  then show ?case by simp
next
  case (navigate b w sid)
  then show ?case by (simp add: setCurrentSceneId_def)
next
  case (upload_plain w w0 p chosen)
  from handleFileChange_plain_projects [of chosen p w]
  show ?case
  proof
    assume "projects (handleFileChange_plain chosen p w) = projects w"
    with upload_plain.IH(1) show ?thesis by simp
  next
    assume "\<exists>t. projects (handleFileChange_plain chosen p w) =
          map (\<lambda>q. if project_id q = project_id p
                    then q\<lparr> storyText := t, totalPages := totalPages_of t,
                           scenes := scenes_of t,
                           name := JStr ''My Animation Project'',
                           author := JStr ''Author Name'' \<rparr>
                    else q) (projects w)"
    then obtain t where "projects (handleFileChange_plain chosen p w) =
          map (\<lambda>q. if project_id q = project_id p
                    then q\<lparr> storyText := t, totalPages := totalPages_of t,
                           scenes := scenes_of t,
                           name := JStr ''My Animation Project'',
                           author := JStr ''Author Name'' \<rparr>
                    else q) (projects w)" by blast
    then show ?thesis
      using upload_plain.IH(1) scenes_ok_scenes_of [of "t"]
      by (simp only:) (rule map_update_ok [where S = "scenes_of t"], simp_all)
  qed
next
  case (generate_plain w w0 p eng sceneId)
  from generate_plain.IH(2) generate_plain.hyps(3) have ok: "scenes_ok (scenes p)" by blast
  have "scenes_ok ((scenes p)(sceneId \<mapsto> completed_over (scenes p sceneId) (mockPrompt eng sceneId)
      ''https://storage.googleapis.com/gtv-videos-bucket/sample/ForBiggerFun.mp4''))"
    using ok mockPrompt_not_null by (intro scenes_ok_completed) simp_all
  with generate_plain.IH(1) show ?case
    by (simp only: handleGenerate_plain_projects)
       (rule map_update_ok [where S = "(scenes p)(sceneId \<mapsto> completed_over (scenes p sceneId)
          (mockPrompt eng sceneId)
          ''https://storage.googleapis.com/gtv-videos-bucket/sample/ForBiggerFun.mp4'')"],
        simp_all)
next
  case (upload_jsx w w0 p eng fetched chosen)
  from handleFileChange_jsx_projects [of eng fetched chosen p w]
  show ?case
  proof
    assume "projects (handleFileChange_jsx eng fetched chosen p w) = projects w"
    with upload_jsx.IH(1) show ?thesis by simp
  next
    assume "\<exists>t np a b. np \<noteq> JNull
        \<and> projects (handleFileChange_jsx eng fetched chosen p w) =
          map (\<lambda>q. if project_id q = project_id p
                    then p\<lparr> storyText := t, totalPages := totalPages_of t,
                           scenes := (scenes_of t)
                             (''cover'' \<mapsto> \<lparr> status = Completed, scene_text = None,
                                              prompt = Some np,
                                              videoUrl = Some (generateVideoFromPrompt np) \<rparr>),
                           name := a, author := b \<rparr>
                    else q) (projects w)"
    then obtain t np a b where np: "np \<noteq> JNull"
      and eq: "projects (handleFileChange_jsx eng fetched chosen p w) =
          map (\<lambda>q. if project_id q = project_id p
                    then p\<lparr> storyText := t, totalPages := totalPages_of t,
                           scenes := (scenes_of t)
                             (''cover'' \<mapsto> \<lparr> status = Completed, scene_text = None,
                                              prompt = Some np,
                                              videoUrl = Some (generateVideoFromPrompt np) \<rparr>),
                           name := a, author := b \<rparr>
                    else q) (projects w)"
      by blast
    from scenes_ok_cover [OF scenes_ok_scenes_of np]
    have "scenes_ok ((scenes_of t)(''cover'' \<mapsto> \<lparr> status = Completed, scene_text = None,
        prompt = Some np, videoUrl = Some (generateVideoFromPrompt np) \<rparr>))" .
    with upload_jsx.IH(1) show ?thesis
      by (simp only: eq)
         (rule map_update_ok [where S = "(scenes_of t)(''cover'' \<mapsto> \<lparr> status = Completed,
            scene_text = None, prompt = Some np,
            videoUrl = Some (generateVideoFromPrompt np) \<rparr>)"], simp_all)
  qed
next
  case (generate_jsx w w0 p eng fetched sceneId imageBase64 feedback isRegenerating)
  let ?h = "handleGenerate_jsx eng fetched p sceneId imageBase64 feedback isRegenerating w"
  from generate_jsx.IH(2) generate_jsx.hyps(3) have ok: "scenes_ok (scenes p)" by blast
  have upd: "scenes_ok ((scenes p)(sceneId \<mapsto> completed_over (scenes p sceneId) np url))"
    if "sceneId = ''cover'' \<longrightarrow> np \<noteq> JNull" for np url
    using ok that by (rule scenes_ok_completed)
  from handleGenerate_jsx_projects [of eng fetched p sceneId imageBase64 feedback isRegenerating w]
  consider (same) "projects ?h = projects w"
    | (scenes_only) np where "projects ?h = map (\<lambda>q. if project_id q = project_id p
          then q\<lparr> scenes := (scenes p)(sceneId \<mapsto> completed_over (scenes p sceneId) np
                                                (generateVideoFromPrompt np)) \<rparr>
          else q) (projects w)" "sceneId = ''cover'' \<longrightarrow> np \<noteq> JNull"
    | (titled) np t a where "projects ?h = map (\<lambda>q. if project_id q = project_id p
          then q\<lparr> scenes := (scenes p)(sceneId \<mapsto> completed_over (scenes p sceneId) np
                                                (generateVideoFromPrompt np)),
                  name := t, author := a \<rparr>
          else q) (projects w)" "np \<noteq> JNull"
    by blast
  then show ?case
  proof cases
    case same
    with generate_jsx.IH(1) show ?thesis by simp
  next
    case scenes_only
    from upd [OF scenes_only(2)] generate_jsx.IH(1) show ?thesis
      by (simp only: scenes_only(1))
         (rule map_update_ok [where S = "(scenes p)(sceneId \<mapsto> completed_over (scenes p sceneId)
            np (generateVideoFromPrompt np))"], simp_all)
  next
    case titled
    from titled(2) have "sceneId = ''cover'' \<longrightarrow> np \<noteq> JNull" by simp
    from upd [OF this] generate_jsx.IH(1) show ?thesis
      by (simp only: titled(1))
         (rule map_update_ok [where S = "(scenes p)(sceneId \<mapsto> completed_over (scenes p sceneId)
            np (generateVideoFromPrompt np))"], simp_all)
  qed
qed

lemma reachable_world0: "reachable b world0"
  unfolding world0_def new_project_def by (rule reachable.create) (rule reachable.start)

lemma new_project_in_world0: "new_project \<in> set (projects world0)"
  by (simp add: world0_def)

lemma reachable_world_pdf: "reachable Jsx world_pdf"
  unfolding world_pdf_def
  by (rule reachable.upload_jsx [OF reachable_world0 reachable_world0 new_project_in_world0])

lemma project_pdf_in_world_pdf: "project_pdf \<in> set (projects world_pdf)"
proof -
  have "length (projects world_pdf) = 1" by code_simp
  then show ?thesis
    by (cases "projects world_pdf") (simp_all add: project_pdf_def)
qed

lemma reachable_world_page1: "reachable Jsx world_page1"
  unfolding world_page1_def
  by (rule reachable.generate_jsx
        [OF reachable_world_pdf reachable_world_pdf project_pdf_in_world_pdf])

lemma reachable_world_null: "reachable Jsx world_null"
  unfolding world_null_def
  by (rule reachable.generate_jsx
        [OF reachable_world_pdf reachable_world_pdf project_pdf_in_world_pdf])

text \<open>
  C1, as amended. In every state either build can reach, a scene of a project is
  completed exactly when its \<open>prompt\<close> field and its \<open>videoUrl\<close> field are both
  present; the prompt of a completed cover is not \<^verbatim>\<open>null\<close>. The scene map built at
  ingestion holds pending scenes with neither field.
\<close>

theorem scene_invariant:
  assumes "reachable b w" and "p \<in> set (projects w)" and "scenes p sid = Some s"
  shows "((status s = Completed) = (prompt s \<noteq> None \<and> videoUrl s \<noteq> None))
     \<and> (sid = ''cover'' \<longrightarrow> prompt s \<noteq> Some JNull)
     \<and> (\<forall>t k s'. scenes_of t k = Some s' \<longrightarrow>
           status s' = Pending \<and> prompt s' = None \<and> videoUrl s' = None)"
proof -
  from reachable_scenes_ok [OF assms(1)] assms(2) have "scenes_ok (scenes p)" by blast
  with assms(3) have "scene_ok sid s" by (simp add: scenes_ok_def)
  then have "((status s = Completed) = (prompt s \<noteq> None \<and> videoUrl s \<noteq> None))
     \<and> (sid = ''cover'' \<longrightarrow> prompt s \<noteq> Some JNull)"
    by (simp add: scene_ok_def split: if_splits)
  moreover have "\<forall>t k s'. scenes_of t k = Some s' \<longrightarrow>
           status s' = Pending \<and> prompt s' = None \<and> videoUrl s' = None"
    using scenes_of_pending by blast
  ultimately show ?thesis by blast
qed

theorem scene_invariant_witness:
  "reachable Jsx world_page1
   \<and> project_page1 \<in> set (projects world_page1)
   \<and> scenes project_page1 ''1'' =
       Some \<lparr> status = Completed, scene_text = Some ''Page1'',
              prompt = Some (JObj [(''scene_summary'', JStr ''A fox runs'')]),
              videoUrl = Some ''https://storage.googleapis.com/gtv-videos-bucket/sample/ForBiggerFun.mp4'' \<rparr>
   \<and> scenes project_page1 ''2'' = Some (pending_scene (Some ''Page2''))
   \<and> ((status (the (scenes project_page1 ''1'')) = Completed) =
        (prompt (the (scenes project_page1 ''1'')) \<noteq> None
         \<and> videoUrl (the (scenes project_page1 ''1'')) \<noteq> None))
   \<and> ((status (the (scenes project_page1 ''2'')) = Completed) =
        (prompt (the (scenes project_page1 ''2'')) \<noteq> None
         \<and> videoUrl (the (scenes project_page1 ''2'')) \<noteq> None))"
proof -
  have len: "length (projects world_page1) = 1" by code_simp
  then have mem: "project_page1 \<in> set (projects world_page1)"
    by (cases "projects world_page1") (simp_all add: project_page1_def)
  have s1: "scenes project_page1 ''1'' =
       Some \<lparr> status = Completed, scene_text = Some ''Page1'',
              prompt = Some (JObj [(''scene_summary'', JStr ''A fox runs'')]),
              videoUrl = Some ''https://storage.googleapis.com/gtv-videos-bucket/sample/ForBiggerFun.mp4'' \<rparr>"
    by code_simp
  have s2: "scenes project_page1 ''2'' = Some (pending_scene (Some ''Page2''))"
    by code_simp
  from s1 have t1: "scenes project_page1 ''1'' = Some (the (scenes project_page1 ''1''))"
    by simp
  from s2 have t2: "scenes project_page1 ''2'' = Some (the (scenes project_page1 ''2''))"
    by simp
  note i1 = scene_invariant [OF reachable_world_page1 mem t1, THEN conjunct1]
  note i2 = scene_invariant [OF reachable_world_page1 mem t2, THEN conjunct1]
  from reachable_world_page1 mem s1 s2 i1 i2 show ?thesis by blast
qed

theorem scene_invariant_counterexample:
  "reachable Jsx world_null
   \<and> length (projects world_null) = 1
   \<and> scenes (hd (projects world_null)) ''1'' =
       Some \<lparr> status = Completed, scene_text = Some ''Page1'', prompt = Some JNull,
              videoUrl = Some ''https://storage.googleapis.com/gtv-videos-bucket/sample/ForBiggerFun.mp4'' \<rparr>
   \<and> \<not> scene_as_specified (the (scenes (hd (projects world_null)) ''1''))"
proof -
  have "length (projects world_null) = 1
   \<and> scenes (hd (projects world_null)) ''1'' =
       Some \<lparr> status = Completed, scene_text = Some ''Page1'', prompt = Some JNull,
              videoUrl = Some ''https://storage.googleapis.com/gtv-videos-bucket/sample/ForBiggerFun.mp4'' \<rparr>
   \<and> \<not> scene_as_specified (the (scenes (hd (projects world_null)) ''1''))"
    by code_simp
  with reachable_world_null show ?thesis by blast
qed

end
